theory Spec2Isabelle
  imports Main
begin

section \<open>The registration store of \<open>src/contexts/RegistrationContext.tsx\<close>\<close>

text \<open>
  The store is a React provider: its state is the pair \<open>registrations\<close>, \<open>loading\<close>
  (two \<open>useState\<close> cells), it reads the identity \<open>user\<close> and the flag \<open>authLoading\<close>
  from \<open>useAuth\<close>, and it talks to one Firestore collection, \<open>registrations\<close>.
  The embedding passes the state explicitly. An operation is a callback that some render
  of the provider created: what it reads of that render (\<open>user\<close>, \<open>authLoading\<close>
  and, in \<open>registerForEvent\<close>, \<open>registrations\<close>) is a parameter of the function,
  beside the state at the time of the call. Every operation runs from its call to its
  completion; the database answers every call, with a failure or with a result.
\<close>

subsection \<open>Data\<close>

text \<open>
  Modelled from the spec: the type \<open>Registration\<close> of \<open>@/lib/types\<close>, which the
  store imports and which is not among the sources. The fields are those of section 3 of
  the specification and of the object literal \<open>newRegistration\<close>; \<open>checkedInAt\<close> is
  optional. The field \<open>id\<close> is written \<open>reg_id\<close>.
\<close>

record registration =
  reg_id :: string
  userId :: string
  eventId :: string
  registrationDate :: string
  checkedIn :: bool
  checkedInAt :: "string option"

text \<open>
  Modelled from the spec: the identity that \<open>useAuth\<close> supplies (section 6), an
  object with an \<open>id\<close> and a \<open>role\<close>, or \<open>null\<close>. The role is a string, compared
  with \<open>'organizer'\<close> and \<open>'student'\<close>; any other string is another role.
\<close>

record user =
  user_id :: string
  role :: string

text \<open>
  Modelled from the spec: a document of the collection, which belongs to the Firestore
  library. A document has a key (\<open>doc.id\<close>) and data (\<open>doc.data()\<close>) with the
  fields of a registration; the data written by the store carries a field \<open>id\<close> of its
  own, the data of a document written by someone else need not.
\<close>

record doc_data =
  data_id :: "string option"
  data_userId :: string
  data_eventId :: string
  data_registrationDate :: string
  data_checkedIn :: bool
  data_checkedInAt :: "string option"

type_synonym document = "string \<times> doc_data"

text \<open>
  The errors of the Firestore library: a call that the database does not serve, an update
  of a document that does not exist, and a path that is no document path.
\<close>

datatype db_error = Unavailable | NotFound | InvalidArgument

text \<open>
  The two queries that the store builds: the collection itself, and
  \<open>query(regsCollection, where('userId', '==', v))\<close>.
\<close>

datatype query = AllDocs | WhereUserId string

text \<open>
  What an operation does besides changing the state, in the order in which it does it:
  the calls of the two state setters, the calls to the database (a document is named by
  the segments of its path below the collection), the error that the Firestore library
  throws, and the calls of \<open>console.error\<close> (with the error object that is logged,
  if there is one).
\<close>

datatype event =
    SetLoading bool
  | SetRegistrations "registration list"
  | GetDocs query
  | SetDoc "string list" doc_data
  | UpdateDoc "string list" bool string
  | Thrown db_error
  | ConsoleError string "db_error option"

text \<open>
  The state: the two cells of the provider, the collection, the documents that lie deeper
  than the collection (in a subcollection of one of its documents), the answers that the
  database is going to give (one flag for each coming call, \<open>True\<close> for a call that
  fails; a call beyond the end of the list succeeds) and the events so far.
\<close>

record world =
  registrations :: "registration list"
  loading :: bool
  db :: "document list"
  elsewhere :: "(string list \<times> doc_data) list"
  faults :: "bool list"
  trace :: "event list"

subsection \<open>The database\<close>

text \<open>
  Modelled from the spec: the primitives of the document database (section 6), which
  belong to the Firestore library: \<open>getAll\<close> and \<open>getWhere\<close> (here \<open>run_query\<close>;
  a query on the collection sees the documents of the collection, not those deeper down),
  \<open>put\<close>, a full upsert under a key, and \<open>patch\<close>, a merge of the named fields into
  the document under a key, which fails when there is no such document.
\<close>

fun run_query :: "query \<Rightarrow> document list \<Rightarrow> document list" where
  "run_query AllDocs ds = ds"
| "run_query (WhereUserId v) ds = filter (\<lambda>(k, d). data_userId d = v) ds"

fun put :: "'k \<Rightarrow> doc_data \<Rightarrow> ('k \<times> doc_data) list \<Rightarrow> ('k \<times> doc_data) list" where
  "put k d [] = [(k, d)]"
| "put k d ((k', d') # ds) = (if k' = k then (k, d) # ds else (k', d') # put k d ds)"

definition patch ::
  "'k \<Rightarrow> bool \<Rightarrow> string \<Rightarrow> ('k \<times> doc_data) list \<Rightarrow> ('k \<times> doc_data) list" where
  "patch k ci at ds =
     map (\<lambda>(k', d). if k' = k then (k', d\<lparr>data_checkedIn := ci, data_checkedInAt := Some at\<rparr>)
                     else (k', d)) ds"

text \<open>
  The function \<open>doc(db, 'registrations', id)\<close> of the Firestore library, as the library
  defines it: an id with two slashes in a row is refused; the id is cut at its slashes
  and the empty pieces are dropped; the pieces are the path below the collection, and a
  path with an even number of pieces (none, for the empty id) is no document path and is
  refused. One piece names a document of the collection, more pieces a document deeper
  down. The function makes no call to the database.
\<close>

fun split_slash :: "string \<Rightarrow> string list" where
  "split_slash [] = [[]]"
| "split_slash (c # cs) =
     (if c = CHR ''/'' then [] # split_slash cs
      else (case split_slash cs of [] \<Rightarrow> [[c]] | s # ss \<Rightarrow> (c # s) # ss))"

fun has_double_slash :: "string \<Rightarrow> bool" where
  "has_double_slash (c # d # cs) =
     ((c = CHR ''/'' \<and> d = CHR ''/'') \<or> has_double_slash (d # cs))"
| "has_double_slash _ = False"

definition doc :: "string \<Rightarrow> db_error + string list" where
  "doc i =
     (if has_double_slash i then Inl InvalidArgument
      else if even (length (filter (\<lambda>s. s \<noteq> []) (split_slash i))) then Inl InvalidArgument
      else Inr (filter (\<lambda>s. s \<noteq> []) (split_slash i)))"

text \<open>Where a path leads: into the collection, or deeper.\<close>

definition has_doc :: "string list \<Rightarrow> world \<Rightarrow> bool" where
  "has_doc p w =
     (case p of
        [k] \<Rightarrow> k \<in> set (map fst (db w))
      | _ \<Rightarrow> p \<in> set (map fst (elsewhere w)))"

definition put_doc :: "string list \<Rightarrow> doc_data \<Rightarrow> world \<Rightarrow> world" where
  "put_doc p d w =
     (case p of
        [k] \<Rightarrow> w\<lparr>db := put k d (db w)\<rparr>
      | _ \<Rightarrow> w\<lparr>elsewhere := put p d (elsewhere w)\<rparr>)"

definition patch_doc :: "string list \<Rightarrow> bool \<Rightarrow> string \<Rightarrow> world \<Rightarrow> world" where
  "patch_doc p ci at w =
     (case p of
        [k] \<Rightarrow> w\<lparr>db := patch k ci at (db w)\<rparr>
      | _ \<Rightarrow> w\<lparr>elsewhere := patch p ci at (elsewhere w)\<rparr>)"

definition take_fault :: "world \<Rightarrow> bool \<times> world" where
  "take_fault w = (case faults w of [] \<Rightarrow> (False, w) | f # fs \<Rightarrow> (f, w\<lparr>faults := fs\<rparr>))"

definition emit :: "event \<Rightarrow> world \<Rightarrow> world" where
  "emit e w = w\<lparr>trace := trace w @ [e]\<rparr>"

definition throw :: "db_error \<Rightarrow> world \<Rightarrow> (db_error + 'a) \<times> world" where
  "throw e w = (Inl e, emit (Thrown e) w)"

definition getDocs :: "query \<Rightarrow> world \<Rightarrow> (db_error + document list) \<times> world" where
  "getDocs q w =
     (case take_fault (emit (GetDocs q) w) of
        (True, w') \<Rightarrow> throw Unavailable w'
      | (False, w') \<Rightarrow> (Inr (run_query q (db w')), w'))"

definition setDoc :: "string list \<Rightarrow> doc_data \<Rightarrow> world \<Rightarrow> (db_error + unit) \<times> world" where
  "setDoc p d w =
     (case take_fault (emit (SetDoc p d) w) of
        (True, w') \<Rightarrow> throw Unavailable w'
      | (False, w') \<Rightarrow> (Inr (), put_doc p d w'))"

definition updateDoc ::
  "string list \<Rightarrow> bool \<Rightarrow> string \<Rightarrow> world \<Rightarrow> (db_error + unit) \<times> world" where
  "updateDoc p ci at w =
     (case take_fault (emit (UpdateDoc p ci at) w) of
        (True, w') \<Rightarrow> throw Unavailable w'
      | (False, w') \<Rightarrow>
          (if has_doc p w' then (Inr (), patch_doc p ci at w')
           else throw NotFound w'))"

subsection \<open>The setters and the log\<close>

definition setLoading :: "bool \<Rightarrow> world \<Rightarrow> world" where
  "setLoading b w = emit (SetLoading b) (w\<lparr>loading := b\<rparr>)"

definition setRegistrations :: "registration list \<Rightarrow> world \<Rightarrow> world" where
  "setRegistrations rs w = emit (SetRegistrations rs) (w\<lparr>registrations := rs\<rparr>)"

definition console_error :: "string \<Rightarrow> db_error option \<Rightarrow> world \<Rightarrow> world" where
  "console_error msg e w = emit (ConsoleError msg e) w"

subsection \<open>\<open>fetchRegistrations\<close>\<close>

text \<open>
  \<open>{ id: doc.id, ...doc.data() }\<close>: the key of the document, overridden by the field
  \<open>id\<close> of the data when the data has one.
\<close>

definition toRegistration :: "document \<Rightarrow> registration" where
  "toRegistration kd =
     \<lparr>reg_id = (case data_id (snd kd) of None \<Rightarrow> fst kd | Some i \<Rightarrow> i),
      userId = data_userId (snd kd),
      eventId = data_eventId (snd kd),
      registrationDate = data_registrationDate (snd kd),
      checkedIn = data_checkedIn (snd kd),
      checkedInAt = data_checkedInAt (snd kd)\<rparr>"

text \<open>\<open>user?.role\<close>: \<open>undefined\<close> when there is no user.\<close>

definition role_of :: "user option \<Rightarrow> string option" where
  "role_of u = map_option role u"

text \<open>
  The rest of the \<open>try\<close> block once the query is chosen: \<open>getDocs\<close>, which may
  throw, then \<open>setRegistrations(fetchedRegs)\<close>.
\<close>

definition fetch_query :: "query \<Rightarrow> world \<Rightarrow> (db_error + unit) \<times> world" where
  "fetch_query q w =
     (case getDocs q w of
        (Inl e, w') \<Rightarrow> (Inl e, w')
      | (Inr docs, w') \<Rightarrow> (Inr (), setRegistrations (map toRegistration docs) w'))"

text \<open>
  The \<open>try\<close> block. Its third branch sets both cells and returns; \<open>Inl\<close> is an
  error thrown out of the block.
\<close>

definition fetch_try :: "user option \<Rightarrow> world \<Rightarrow> (db_error + unit) \<times> world" where
  "fetch_try u w =
     (if role_of u = Some ''organizer'' then fetch_query AllDocs w
      else if role_of u = Some ''student'' then
        (case u of
           Some usr \<Rightarrow> fetch_query (WhereUserId (user_id usr)) w
         | None \<Rightarrow> (Inr (), setLoading False (setRegistrations [] w)))
      else (Inr (), setLoading False (setRegistrations [] w)))"

text \<open>
  The whole function: the guard on \<open>authLoading\<close>, \<open>setLoading(true)\<close>, the
  \<open>try\<close> block, the \<open>catch\<close> that logs, the \<open>finally\<close> that runs on every way
  out of the block. The result \<open>Inl\<close> would be an error that reaches the caller.
\<close>

definition fetchRegistrations :: "user option \<Rightarrow> bool \<Rightarrow> world \<Rightarrow> (db_error + unit) \<times> world" where
  "fetchRegistrations u authLoading w =
     (if authLoading then (Inr (), w)
      else
        (case fetch_try u (setLoading True w) of
           (Inl e, w') \<Rightarrow>
             (Inr (), setLoading False (console_error ''Error fetching registrations:'' (Some e) w'))
         | (Inr _, w') \<Rightarrow> (Inr (), setLoading False w')))"

subsection \<open>\<open>registerForEvent\<close>\<close>

definition registrationId :: "user \<Rightarrow> string \<Rightarrow> string" where
  "registrationId usr ev = user_id usr @ ''-'' @ ev"

text \<open>The object literal \<open>newRegistration\<close>; \<open>now\<close> is \<open>new Date().toISOString()\<close>.\<close>

definition newRegistration :: "user \<Rightarrow> string \<Rightarrow> string \<Rightarrow> registration" where
  "newRegistration usr ev now =
     \<lparr>reg_id = registrationId usr ev,
      userId = user_id usr,
      eventId = ev,
      registrationDate = now,
      checkedIn = False,
      checkedInAt = None\<rparr>"

text \<open>A registration as the data of a document: all its fields, \<open>id\<close> among them.\<close>

definition toDocData :: "registration \<Rightarrow> doc_data" where
  "toDocData r =
     \<lparr>data_id = Some (reg_id r),
      data_userId = userId r,
      data_eventId = eventId r,
      data_registrationDate = registrationDate r,
      data_checkedIn = checkedIn r,
      data_checkedInAt = checkedInAt r\<rparr>"

text \<open>
  The \<open>try\<close> block: the reference to the document, which \<open>doc\<close> may refuse, the
  write, then the refetch, both awaited.
\<close>

definition register_try ::
  "user option \<Rightarrow> bool \<Rightarrow> registration \<Rightarrow> world \<Rightarrow> (db_error + unit) \<times> world" where
  "register_try u authLoading r w =
     (case doc (reg_id r) of
        Inl e \<Rightarrow> throw e w
      | Inr p \<Rightarrow>
          (case setDoc p (toDocData r) w of
             (Inl e, w') \<Rightarrow> (Inl e, w')
           | (Inr _, w') \<Rightarrow> fetchRegistrations u authLoading w'))"

text \<open>
  The callback. \<open>regs\<close> is the \<open>registrations\<close> of the render that created it
  (the callback is created anew when \<open>user\<close>, \<open>registrations\<close> or
  \<open>fetchRegistrations\<close> changes): the test for a duplicate reads it, not the state at
  the time of the call.
\<close>

definition registerForEvent ::
  "user option \<Rightarrow> bool \<Rightarrow> registration list \<Rightarrow> string \<Rightarrow> string \<Rightarrow> world
     \<Rightarrow> (db_error + unit) \<times> world" where
  "registerForEvent u authLoading regs ev now w =
     (case u of
        None \<Rightarrow> (Inr (), console_error ''User must be logged in to register.'' None w)
      | Some usr \<Rightarrow>
          (if list_ex (\<lambda>reg. reg_id reg = registrationId usr ev) regs
           then (Inr (), w)
           else
             (case register_try u authLoading (newRegistration usr ev now) w of
                (Inl e, w') \<Rightarrow>
                  (Inr (), console_error ''Error creating registration:'' (Some e) w')
              | (Inr _, w') \<Rightarrow> (Inr (), w'))))"

subsection \<open>\<open>markAttendance\<close>\<close>

text \<open>The function given to \<open>setRegistrations\<close> in the branch that does not refetch.\<close>

definition patch_local :: "string \<Rightarrow> string \<Rightarrow> registration list \<Rightarrow> registration list" where
  "patch_local rid at prev =
     map (\<lambda>reg. if reg_id reg = rid then reg\<lparr>checkedIn := True, checkedInAt := Some at\<rparr>
                else reg) prev"

text \<open>
  The \<open>try\<close> block: the reference to the document, which \<open>doc\<close> may refuse, the
  time of the call, the update, then the refetch or the change in place;
  \<open>setRegistrations\<close> is given a function of the state at that time.
\<close>

definition mark_try ::
  "user option \<Rightarrow> bool \<Rightarrow> string \<Rightarrow> string \<Rightarrow> world \<Rightarrow> (db_error + unit) \<times> world" where
  "mark_try u authLoading rid now w =
     (case doc rid of
        Inl e \<Rightarrow> throw e w
      | Inr p \<Rightarrow>
          (case updateDoc p True now w of
             (Inl e, w') \<Rightarrow> (Inl e, w')
           | (Inr _, w') \<Rightarrow>
               (if role_of u = Some ''organizer'' then fetchRegistrations u authLoading w'
                else (Inr (), setRegistrations (patch_local rid now (registrations w')) w'))))"

definition markAttendance ::
  "user option \<Rightarrow> bool \<Rightarrow> string \<Rightarrow> string \<Rightarrow> world \<Rightarrow> (db_error + unit) \<times> world" where
  "markAttendance u authLoading rid now w =
     (case mark_try u authLoading rid now w of
        (Inl e, w') \<Rightarrow> (Inr (), console_error ''Error marking attendance:'' (Some e) w')
      | (Inr _, w') \<Rightarrow> (Inr (), w'))"

subsection \<open>The derived views\<close>

definition userRegistrations :: "user option \<Rightarrow> registration list \<Rightarrow> registration list" where
  "userRegistrations u regs =
     (case u of
        Some usr \<Rightarrow> filter (\<lambda>reg. userId reg = user_id usr) regs
      | None \<Rightarrow> [])"

definition allRegistrations :: "user option \<Rightarrow> registration list \<Rightarrow> registration list" where
  "allRegistrations u regs = (if role_of u = Some ''organizer'' then regs else [])"

subsection \<open>Observations used to state the properties\<close>

text \<open>The next call to the database fails: the first of the coming answers is a failure.\<close>

definition db_fails :: "world \<Rightarrow> bool" where
  "db_fails w = (case faults w of [] \<Rightarrow> False | f # _ \<Rightarrow> f)"

text \<open>An id that names a document of the collection: not empty and without a slash.\<close>

definition plain_id :: "string \<Rightarrow> bool" where
  "plain_id i = (i \<noteq> [] \<and> CHR ''/'' \<notin> set i)"

text \<open>The query that the identity selects in \<open>fetchRegistrations\<close>, if it selects one.\<close>

definition query_of :: "user option \<Rightarrow> query option" where
  "query_of u =
     (case u of
        None \<Rightarrow> None
      | Some usr \<Rightarrow>
          (if role usr = ''organizer'' then Some AllDocs
           else if role usr = ''student'' then Some (WhereUserId (user_id usr))
           else None))"

text \<open>The events of an operation that took the state \<open>w\<close> to the state \<open>w'\<close>.\<close>

definition new_events :: "world \<Rightarrow> world \<Rightarrow> event list" where
  "new_events w w' = drop (length (trace w)) (trace w')"

fun is_thrown :: "event \<Rightarrow> bool" where
  "is_thrown (Thrown e) = True"
| "is_thrown _ = False"

fun is_db_call :: "event \<Rightarrow> bool" where
  "is_db_call (GetDocs q) = True"
| "is_db_call (SetDoc k d) = True"
| "is_db_call (UpdateDoc k ci at) = True"
| "is_db_call _ = False"

text \<open>
  The invariant of section 3 on a record of the working set and on the data of a
  document: not checked in exactly when there is no check-in time.
\<close>

definition reg_ok :: "registration \<Rightarrow> bool" where
  "reg_ok r = (checkedIn r = False \<longleftrightarrow> checkedInAt r = None)"

definition data_ok :: "doc_data \<Rightarrow> bool" where
  "data_ok d = (data_checkedIn d = False \<longleftrightarrow> data_checkedInAt d = None)"

definition checkin_inv :: "world \<Rightarrow> bool" where
  "checkin_inv w = (list_all reg_ok (registrations w) \<and> list_all (\<lambda>kd. data_ok (snd kd)) (db w))"





text \<open>
  The state of the provider when it mounts, \<open>useState([])\<close> and \<open>useState(true)\<close>,
  over a collection and the answers of the database.
\<close>

definition provider_init :: "document list \<Rightarrow> bool list \<Rightarrow> world" where
  "provider_init ds fs =
     \<lparr>registrations = [], loading = True, db = ds, elsewhere = [], faults = fs, trace = []\<rparr>"

subsection \<open>Sample data\<close>

text \<open>
  A student, an organizer, a user with another role, and a collection with one
  registration of the student \<open>u1\<close> and one of a student \<open>u2\<close>.
\<close>

definition student1 :: user where
  "student1 = \<lparr>user_id = ''u1'', role = ''student''\<rparr>"

definition organizer1 :: user where
  "organizer1 = \<lparr>user_id = ''org1'', role = ''organizer''\<rparr>"

definition guest1 :: user where
  "guest1 = \<lparr>user_id = ''g1'', role = ''guest''\<rparr>"

definition doc_u1_e1 :: document where
  "doc_u1_e1 =
     (''u1-e1'', \<lparr>data_id = Some ''u1-e1'', data_userId = ''u1'', data_eventId = ''e1'',
                  data_registrationDate = ''2024-05-01T09:00:00.000Z'',
                  data_checkedIn = False, data_checkedInAt = None\<rparr>)"

definition doc_u2_e1 :: document where
  "doc_u2_e1 =
     (''u2-e1'', \<lparr>data_id = Some ''u2-e1'', data_userId = ''u2'', data_eventId = ''e1'',
                  data_registrationDate = ''2024-05-02T09:00:00.000Z'',
                  data_checkedIn = False, data_checkedInAt = None\<rparr>)"

definition sample_db :: "document list" where
  "sample_db = [doc_u1_e1, doc_u2_e1]"

text \<open>The provider over the sample collection, after the student \<open>u1\<close> has fetched.\<close>

definition student1_world :: world where
  "student1_world = (provider_init sample_db [])\<lparr>registrations := [toRegistration doc_u1_e1]\<rparr>"

section \<open>The operations, case by case\<close>

lemmas prim_defs = take_fault_def emit_def throw_def getDocs_def setDoc_def updateDoc_def
  setLoading_def setRegistrations_def console_error_def db_fails_def

subsection \<open>Document paths\<close>

lemma split_slash_plain: "CHR ''/'' \<notin> set i \<Longrightarrow> split_slash i = [i]"
  by (induction i) auto

lemma no_double_slash_plain: "CHR ''/'' \<notin> set i \<Longrightarrow> \<not> has_double_slash i"
  by (induction i rule: has_double_slash.induct) auto

lemma doc_plain: "plain_id i \<Longrightarrow> doc i = Inr [i]"
  by (simp add: plain_id_def doc_def split_slash_plain no_double_slash_plain)

lemma put_doc_fields:
  "registrations (put_doc p d w) = registrations w"
  "loading (put_doc p d w) = loading w"
  "faults (put_doc p d w) = faults w"
  "trace (put_doc p d w) = trace w"
  by (simp_all add: put_doc_def split: list.splits)

lemma patch_doc_fields:
  "registrations (patch_doc p ci at w) = registrations w"
  "loading (patch_doc p ci at w) = loading w"
  "faults (patch_doc p ci at w) = faults w"
  "trace (patch_doc p ci at w) = trace w"
  by (simp_all add: patch_doc_def split: list.splits)

lemma has_doc_fields:
  "has_doc p (w\<lparr>faults := fs\<rparr>) = has_doc p w"
  "has_doc p (w\<lparr>trace := t\<rparr>) = has_doc p w"
  by (simp_all add: has_doc_def split: list.splits)

lemmas doc_fields = put_doc_fields patch_doc_fields has_doc_fields

lemma put_doc_key:
  "put_doc [k] d (w\<lparr>faults := fs, trace := t\<rparr>) =
     w\<lparr>db := put k d (db w), faults := fs, trace := t\<rparr>"
  by (simp add: put_doc_def)

lemma patch_doc_key:
  "patch_doc [k] ci at (w\<lparr>faults := fs, trace := t\<rparr>) =
     w\<lparr>db := patch k ci at (db w), faults := fs, trace := t\<rparr>"
  by (simp add: patch_doc_def)

lemma has_doc_key: "has_doc [k] w \<longleftrightarrow> k \<in> fst ` set (db w)"
  by (simp add: has_doc_def)

subsection \<open>The calls to the database\<close>

lemma take_fault_emit:
  "take_fault (emit e w) = (db_fails w, w\<lparr>faults := tl (faults w), trace := trace w @ [e]\<rparr>)"
  by (cases "faults w") (simp_all add: take_fault_def emit_def db_fails_def)

lemma setDoc_ok:
  "\<not> db_fails w \<Longrightarrow>
   setDoc p d w =
     (Inr (), put_doc p d (w\<lparr>faults := tl (faults w), trace := trace w @ [SetDoc p d]\<rparr>))"
  by (simp add: setDoc_def take_fault_emit)

lemma setDoc_fail:
  "db_fails w \<Longrightarrow>
   setDoc p d w = (Inl Unavailable, w\<lparr>faults := tl (faults w),
                                       trace := trace w @ [SetDoc p d, Thrown Unavailable]\<rparr>)"
  by (simp add: setDoc_def take_fault_emit) (simp add: throw_def emit_def)

lemma updateDoc_ok:
  "\<not> db_fails w \<Longrightarrow> has_doc p w \<Longrightarrow>
   updateDoc p ci at w =
     (Inr (), patch_doc p ci at
                (w\<lparr>faults := tl (faults w), trace := trace w @ [UpdateDoc p ci at]\<rparr>))"
  by (simp add: updateDoc_def take_fault_emit doc_fields)

lemma updateDoc_fail:
  "db_fails w \<Longrightarrow>
   updateDoc p ci at w = (Inl Unavailable, w\<lparr>faults := tl (faults w),
                                    trace := trace w @ [UpdateDoc p ci at, Thrown Unavailable]\<rparr>)"
  by (simp add: updateDoc_def take_fault_emit doc_fields) (simp add: throw_def emit_def)

lemma updateDoc_missing:
  "\<not> db_fails w \<Longrightarrow> \<not> has_doc p w \<Longrightarrow>
   updateDoc p ci at w = (Inl NotFound, w\<lparr>faults := tl (faults w),
                                    trace := trace w @ [UpdateDoc p ci at, Thrown NotFound]\<rparr>)"
  by (simp add: updateDoc_def take_fault_emit doc_fields) (simp add: throw_def emit_def)

subsection \<open>The cases of \<open>fetchRegistrations\<close>\<close>

lemma fetch_query_ok:
  "\<not> db_fails w \<Longrightarrow>
   fetch_query q w =
     (Inr (), w\<lparr>registrations := map toRegistration (run_query q (db w)),
               faults := tl (faults w),
               trace := trace w @ [GetDocs q, SetRegistrations (map toRegistration (run_query q (db w)))]\<rparr>)"
  by (cases "faults w") (simp_all add: fetch_query_def prim_defs)

lemma fetch_query_fail:
  "db_fails w \<Longrightarrow>
   fetch_query q w =
     (Inl Unavailable, w\<lparr>faults := tl (faults w),
                         trace := trace w @ [GetDocs q, Thrown Unavailable]\<rparr>)"
  by (cases "faults w") (simp_all add: fetch_query_def prim_defs)

lemma fetch_try_query:
  "fetch_try u w =
     (case query_of u of
        Some q \<Rightarrow> fetch_query q w
      | None \<Rightarrow> (Inr (), w\<lparr>registrations := [], loading := False,
                           trace := trace w @ [SetRegistrations [], SetLoading False]\<rparr>))"
  by (cases u) (simp_all add: fetch_try_def query_of_def role_of_def prim_defs)

lemma fetch_pending: "fetchRegistrations u True w = (Inr (), w)"
  by (simp add: fetchRegistrations_def)

lemma fetch_other:
  "query_of u = None \<Longrightarrow>
   fetchRegistrations u False w =
     (Inr (), w\<lparr>registrations := [], loading := False,
               trace := trace w @ [SetLoading True, SetRegistrations [], SetLoading False,
                                   SetLoading False]\<rparr>)"
  by (simp add: fetchRegistrations_def fetch_try_query) (simp add: prim_defs)

lemma fetch_ok:
  "query_of u = Some q \<Longrightarrow> \<not> db_fails w \<Longrightarrow>
   fetchRegistrations u False w =
     (Inr (), w\<lparr>registrations := map toRegistration (run_query q (db w)), loading := False,
               faults := tl (faults w),
               trace := trace w @ [SetLoading True, GetDocs q,
                                   SetRegistrations (map toRegistration (run_query q (db w))),
                                   SetLoading False]\<rparr>)"
  by (simp add: fetchRegistrations_def fetch_try_query fetch_query_ok db_fails_def setLoading_def emit_def)

lemma fetch_fail:
  "query_of u = Some q \<Longrightarrow> db_fails w \<Longrightarrow>
   fetchRegistrations u False w =
     (Inr (), w\<lparr>loading := False, faults := tl (faults w),
               trace := trace w @ [SetLoading True, GetDocs q, Thrown Unavailable,
                                   ConsoleError ''Error fetching registrations:'' (Some Unavailable),
                                   SetLoading False]\<rparr>)"
  by (simp add: fetchRegistrations_def fetch_try_query fetch_query_fail db_fails_def setLoading_def emit_def console_error_def)

lemma fetch_returns: "fst (fetchRegistrations u al w) = Inr ()"
  by (simp add: fetchRegistrations_def split: prod.splits sum.splits)

lemma fetch_result: "fetchRegistrations u al w = (Inr (), snd (fetchRegistrations u al w))"
  using fetch_returns [of u al w] by (simp add: prod_eq_iff)

lemma fetch_db: "db (snd (fetchRegistrations u al w)) = db w"
  by (cases al; cases "query_of u"; cases "db_fails w")
     (simp_all add: fetch_pending fetch_other fetch_ok fetch_fail)

lemma fetch_trace_extends: "\<exists>evs. trace (snd (fetchRegistrations u al w)) = trace w @ evs"
  by (cases al; cases "query_of u"; cases "db_fails w")
     (simp_all add: fetch_pending fetch_other fetch_ok fetch_fail)


subsection \<open>The cases of \<open>registerForEvent\<close>\<close>

lemma register_dup:
  "list_ex (\<lambda>reg. reg_id reg = registrationId usr ev) regs \<Longrightarrow>
   registerForEvent (Some usr) al regs ev now w = (Inr (), w)"
  by (simp add: registerForEvent_def)

lemma register_invalid:
  "\<not> list_ex (\<lambda>reg. reg_id reg = registrationId usr ev) regs \<Longrightarrow>
   doc (registrationId usr ev) = Inl e \<Longrightarrow>
   registerForEvent (Some usr) al regs ev now w =
     (Inr (), w\<lparr>trace := trace w @
                 [Thrown e, ConsoleError ''Error creating registration:'' (Some e)]\<rparr>)"
  by (simp add: registerForEvent_def register_try_def newRegistration_def throw_def
      console_error_def emit_def)

lemma register_ok_path:
  assumes "\<not> list_ex (\<lambda>reg. reg_id reg = registrationId usr ev) regs"
    and "doc (registrationId usr ev) = Inr p" and "\<not> db_fails w"
  shows "registerForEvent (Some usr) al regs ev now w =
     fetchRegistrations (Some usr) al
       (put_doc p (toDocData (newRegistration usr ev now))
          (w\<lparr>faults := tl (faults w),
             trace := trace w @ [SetDoc p (toDocData (newRegistration usr ev now))]\<rparr>))"
proof -
  have r: "reg_id (newRegistration usr ev now) = registrationId usr ev"
    by (simp add: newRegistration_def)
  obtain w' where f: "fetchRegistrations (Some usr) al
       (put_doc p (toDocData (newRegistration usr ev now))
          (w\<lparr>faults := tl (faults w),
             trace := trace w @ [SetDoc p (toDocData (newRegistration usr ev now))]\<rparr>)) =
       (Inr (), w')"
    by (rule that [OF fetch_result])
  show ?thesis
    using assms by (simp add: registerForEvent_def register_try_def setDoc_ok r f)
qed

lemma register_fail_path:
  "\<not> list_ex (\<lambda>reg. reg_id reg = registrationId usr ev) regs \<Longrightarrow>
   doc (registrationId usr ev) = Inr p \<Longrightarrow> db_fails w \<Longrightarrow>
   registerForEvent (Some usr) al regs ev now w =
     (Inr (), w\<lparr>faults := tl (faults w),
               trace := trace w @ [SetDoc p (toDocData (newRegistration usr ev now)),
                                   Thrown Unavailable,
                                   ConsoleError ''Error creating registration:'' (Some Unavailable)]\<rparr>)"
  by (simp add: registerForEvent_def register_try_def setDoc_fail newRegistration_def
      console_error_def emit_def)

lemma register_ok:
  assumes "\<not> list_ex (\<lambda>reg. reg_id reg = registrationId usr ev) regs"
    and "plain_id (registrationId usr ev)" and "\<not> db_fails w"
  shows "registerForEvent (Some usr) al regs ev now w =
     fetchRegistrations (Some usr) al
       (w\<lparr>db := put (registrationId usr ev) (toDocData (newRegistration usr ev now)) (db w),
          faults := tl (faults w),
          trace := trace w @
            [SetDoc [registrationId usr ev] (toDocData (newRegistration usr ev now))]\<rparr>)"
  using register_ok_path [OF assms(1) doc_plain [OF assms(2)] assms(3), of al now]
  by (simp add: doc_fields put_doc_key)

lemma register_fail:
  assumes "\<not> list_ex (\<lambda>reg. reg_id reg = registrationId usr ev) regs"
    and "plain_id (registrationId usr ev)" and "db_fails w"
  shows "registerForEvent (Some usr) al regs ev now w =
     (Inr (), w\<lparr>faults := tl (faults w),
               trace := trace w @
                 [SetDoc [registrationId usr ev] (toDocData (newRegistration usr ev now)),
                  Thrown Unavailable,
                  ConsoleError ''Error creating registration:'' (Some Unavailable)]\<rparr>)"
  using assms(1) doc_plain [OF assms(2)] assms(3) by (rule register_fail_path)

lemma register_returns: "fst (registerForEvent u al regs ev now w) = Inr ()"
  by (simp add: registerForEvent_def split: option.splits prod.splits sum.splits)

subsection \<open>The cases of \<open>markAttendance\<close>\<close>

lemma mark_invalid:
  "doc rid = Inl e \<Longrightarrow>
   markAttendance u al rid now w =
     (Inr (), w\<lparr>trace := trace w @
                 [Thrown e, ConsoleError ''Error marking attendance:'' (Some e)]\<rparr>)"
  by (simp add: markAttendance_def mark_try_def throw_def console_error_def emit_def)

lemma mark_fail_path:
  "doc rid = Inr p \<Longrightarrow> db_fails w \<Longrightarrow>
   markAttendance u al rid now w =
     (Inr (), w\<lparr>faults := tl (faults w),
               trace := trace w @ [UpdateDoc p True now, Thrown Unavailable,
                                   ConsoleError ''Error marking attendance:'' (Some Unavailable)]\<rparr>)"
  by (simp add: markAttendance_def mark_try_def updateDoc_fail console_error_def emit_def)

lemma mark_missing_path:
  "doc rid = Inr p \<Longrightarrow> \<not> db_fails w \<Longrightarrow> \<not> has_doc p w \<Longrightarrow>
   markAttendance u al rid now w =
     (Inr (), w\<lparr>faults := tl (faults w),
               trace := trace w @ [UpdateDoc p True now, Thrown NotFound,
                                   ConsoleError ''Error marking attendance:'' (Some NotFound)]\<rparr>)"
  by (simp add: markAttendance_def mark_try_def updateDoc_missing console_error_def emit_def)

lemma mark_ok_local_path:
  "doc rid = Inr p \<Longrightarrow> \<not> db_fails w \<Longrightarrow> has_doc p w \<Longrightarrow>
   role_of u \<noteq> Some ''organizer'' \<Longrightarrow>
   markAttendance u al rid now w =
     (Inr (), setRegistrations (patch_local rid now (registrations w))
                (patch_doc p True now
                   (w\<lparr>faults := tl (faults w), trace := trace w @ [UpdateDoc p True now]\<rparr>)))"
  by (simp add: markAttendance_def mark_try_def updateDoc_ok doc_fields)

lemma mark_ok_organizer_path:
  assumes "doc rid = Inr p" and "\<not> db_fails w" and "has_doc p w"
    and "role_of u = Some ''organizer''"
  shows "markAttendance u al rid now w =
     fetchRegistrations u al
       (patch_doc p True now
          (w\<lparr>faults := tl (faults w), trace := trace w @ [UpdateDoc p True now]\<rparr>))"
proof -
  obtain w' where f: "fetchRegistrations u al
       (patch_doc p True now
          (w\<lparr>faults := tl (faults w), trace := trace w @ [UpdateDoc p True now]\<rparr>)) =
       (Inr (), w')"
    by (rule that [OF fetch_result])
  show ?thesis
    using assms by (simp add: markAttendance_def mark_try_def updateDoc_ok f)
qed

lemma mark_ok_local:
  "plain_id rid \<Longrightarrow> \<not> db_fails w \<Longrightarrow> rid \<in> fst ` set (db w) \<Longrightarrow>
   role_of u \<noteq> Some ''organizer'' \<Longrightarrow>
   markAttendance u al rid now w =
     (Inr (), w\<lparr>registrations := patch_local rid now (registrations w),
               db := patch rid True now (db w),
               faults := tl (faults w),
               trace := trace w @ [UpdateDoc [rid] True now,
                                   SetRegistrations (patch_local rid now (registrations w))]\<rparr>)"
  by (simp add: doc_fields mark_ok_local_path [OF doc_plain] has_doc_key patch_doc_key
      setRegistrations_def emit_def)


lemma mark_returns: "fst (markAttendance u al rid now w) = Inr ()"
  by (simp add: markAttendance_def split: prod.splits sum.splits)

lemma patch_local_miss:
  "\<not> list_ex (\<lambda>reg. reg_id reg = rid) rs \<Longrightarrow> patch_local rid now rs = rs"
  by (induction rs) (simp_all add: patch_local_def)

subsection \<open>A thrown error leaves the working set alone\<close>

lemma new_events_after:
  "trace w1 = trace w @ es \<Longrightarrow> trace w' = trace w1 @ evs \<Longrightarrow>
   new_events w w' = es @ new_events w1 w'"
  by (simp add: new_events_def)

lemma fetch_new_events_after:
  "trace w1 = trace w @ es \<Longrightarrow>
   new_events w (snd (fetchRegistrations u al w1)) =
     es @ new_events w1 (snd (fetchRegistrations u al w1))"
  using fetch_trace_extends [of u al w1] by (auto simp: new_events_after)

lemma fetch_thrown_keeps:
  "list_ex is_thrown (new_events w (snd (fetchRegistrations u al w))) \<Longrightarrow>
   registrations (snd (fetchRegistrations u al w)) = registrations w"
  by (cases al; cases "query_of u"; cases "db_fails w")
     (simp_all add: fetch_pending fetch_other fetch_ok fetch_fail new_events_def)

lemma register_thrown_keeps:
  assumes t: "list_ex is_thrown (new_events w (snd (registerForEvent u al regs ev now w)))"
  shows "registrations (snd (registerForEvent u al regs ev now w)) = registrations w"
proof (cases u)
  case None
  then show ?thesis by (simp add: doc_fields registerForEvent_def console_error_def emit_def)
next
  case (Some usr)
  show ?thesis
  proof (cases "list_ex (\<lambda>reg. reg_id reg = registrationId usr ev) regs")
    case True
    then show ?thesis by (simp add: doc_fields Some register_dup)
  next
    case fresh: False
    show ?thesis
    proof (cases "doc (registrationId usr ev)")
      case (Inl e)
      then show ?thesis by (simp add: doc_fields Some register_invalid [OF fresh])
    next
      case (Inr p)
      show ?thesis
      proof (cases "db_fails w")
        case True
        then show ?thesis by (simp add: doc_fields Some register_fail_path [OF fresh Inr])
      next
        case False
        let ?d = "toDocData (newRegistration usr ev now)"
        let ?w1 = "put_doc p ?d (w\<lparr>faults := tl (faults w), trace := trace w @ [SetDoc p ?d]\<rparr>)"
        have e: "registerForEvent u al regs ev now w = fetchRegistrations (Some usr) al ?w1"
          by (simp add: doc_fields Some register_ok_path [OF fresh Inr False])
        have "new_events w (snd (fetchRegistrations (Some usr) al ?w1)) =
                [SetDoc p ?d] @ new_events ?w1 (snd (fetchRegistrations (Some usr) al ?w1))"
          by (rule fetch_new_events_after) (simp add: doc_fields)
        with t have "list_ex is_thrown (new_events ?w1 (snd (fetchRegistrations (Some usr) al ?w1)))"
          by (simp add: doc_fields e)
        then have "registrations (snd (fetchRegistrations (Some usr) al ?w1)) = registrations ?w1"
          by (rule fetch_thrown_keeps)
        then show ?thesis by (simp add: doc_fields e)
      qed
    qed
  qed
qed

lemma mark_thrown_keeps:
  assumes t: "list_ex is_thrown (new_events w (snd (markAttendance u al rid now w)))"
  shows "registrations (snd (markAttendance u al rid now w)) = registrations w"
proof (cases "doc rid")
  case (Inl e)
  then show ?thesis by (simp add: doc_fields mark_invalid)
next
  case (Inr p)
  consider (fail) "db_fails w" | (missing) "\<not> db_fails w" "\<not> has_doc p w"
    | (ok) "\<not> db_fails w" "has_doc p w"
    by blast
  then show ?thesis
  proof cases
    case fail
    then show ?thesis by (simp add: doc_fields mark_fail_path [OF Inr])
  next
    case missing
    then show ?thesis by (simp add: doc_fields mark_missing_path [OF Inr])
  next
    case ok
    show ?thesis
    proof (cases "role_of u = Some ''organizer''")
      case False
      with t ok show ?thesis
        by (simp add: doc_fields mark_ok_local_path [OF Inr] new_events_def setRegistrations_def emit_def)
    next
      case True
      let ?w1 = "patch_doc p True now
                   (w\<lparr>faults := tl (faults w), trace := trace w @ [UpdateDoc p True now]\<rparr>)"
      have e: "markAttendance u al rid now w = fetchRegistrations u al ?w1"
        using Inr ok True by (rule mark_ok_organizer_path)
      have "new_events w (snd (fetchRegistrations u al ?w1)) =
              [UpdateDoc p True now] @ new_events ?w1 (snd (fetchRegistrations u al ?w1))"
        by (rule fetch_new_events_after) (simp add: doc_fields)
      with t have "list_ex is_thrown (new_events ?w1 (snd (fetchRegistrations u al ?w1)))"
        by (simp add: doc_fields e)
      then have "registrations (snd (fetchRegistrations u al ?w1)) = registrations ?w1"
        by (rule fetch_thrown_keeps)
      then show ?thesis by (simp add: doc_fields e)
    qed
  qed
qed

subsection \<open>The collection\<close>

lemma map_of_put: "map_of (put k d ds) k' = (if k' = k then Some d else map_of ds k')"
  by (induction ds) auto








lemma set_run_query: "set (run_query q ds) \<subseteq> set ds"
  by (cases q) auto


subsection \<open>The check-in invariant\<close>

lemma data_ok_put:
  "list_all (\<lambda>kd. data_ok (snd kd)) ds \<Longrightarrow> data_ok d \<Longrightarrow>
   list_all (\<lambda>kd. data_ok (snd kd)) (put k d ds)"
  by (induction ds) auto

lemma data_ok_patch:
  "list_all (\<lambda>kd. data_ok (snd kd)) ds \<Longrightarrow>
   list_all (\<lambda>kd. data_ok (snd kd)) (patch k True at ds)"
  by (induction ds) (simp_all add: patch_def data_ok_def case_prod_unfold)

lemma reg_ok_toRegistration: "data_ok (snd kd) \<Longrightarrow> reg_ok (toRegistration kd)"
  by (simp add: data_ok_def reg_ok_def toRegistration_def)

lemma reg_ok_fetched:
  assumes "list_all (\<lambda>kd. data_ok (snd kd)) ds"
  shows "list_all reg_ok (map toRegistration (run_query q ds))"
proof -
  have "data_ok (snd kd)" if "kd \<in> set (run_query q ds)" for kd
    using that assms set_run_query [of q ds] by (auto simp: list_all_iff)
  then show ?thesis
    by (simp add: list_all_iff reg_ok_toRegistration)
qed

lemma reg_ok_patch_local: "list_all reg_ok rs \<Longrightarrow> list_all reg_ok (patch_local rid now rs)"
  by (induction rs) (simp_all add: patch_local_def reg_ok_def)

lemma data_ok_new: "data_ok (toDocData (newRegistration usr ev now))"
  by (simp add: data_ok_def toDocData_def newRegistration_def)

lemma patch_local_sets_both:
  assumes "r \<in> set (patch_local rid now rs)" and "reg_id r = rid"
  shows "checkedIn r \<and> checkedInAt r = Some now"
proof -
  from assms(1) have
    "r \<in> (\<lambda>reg. if reg_id reg = rid then reg\<lparr>checkedIn := True, checkedInAt := Some now\<rparr>
                   else reg) ` set rs"
    by (simp add: patch_local_def)
  then obtain x where
    x: "r = (if reg_id x = rid then x\<lparr>checkedIn := True, checkedInAt := Some now\<rparr> else x)"
    by (rule imageE)
  show ?thesis
  proof (cases "reg_id x = rid")
    case True
    with x show ?thesis by simp
  next
    case False
    with x assms(2) show ?thesis by simp
  qed
qed

lemma patch_sets_both:
  "(rid, d) \<in> set (patch rid True now ds) \<Longrightarrow> data_checkedIn d \<and> data_checkedInAt d = Some now"
  by (induction ds) (auto simp: patch_def split: if_splits)

lemma fetch_inv: "checkin_inv w \<Longrightarrow> checkin_inv (snd (fetchRegistrations u al w))"
  by (cases al; cases "query_of u"; cases "db_fails w")
     (simp_all add: fetch_pending fetch_other fetch_ok fetch_fail checkin_inv_def reg_ok_fetched)

lemma put_doc_inv: "checkin_inv w \<Longrightarrow> data_ok d \<Longrightarrow> checkin_inv (put_doc p d w)"
  by (simp add: doc_fields checkin_inv_def put_doc_def data_ok_put split: list.splits)

lemma patch_doc_inv: "checkin_inv w \<Longrightarrow> checkin_inv (patch_doc p True at w)"
  by (simp add: doc_fields checkin_inv_def patch_doc_def data_ok_patch split: list.splits)

lemma register_inv:
  assumes "checkin_inv w"
  shows "checkin_inv (snd (registerForEvent u al regs ev now w))"
proof (cases u)
  case None
  with assms show ?thesis
    by (simp add: doc_fields registerForEvent_def console_error_def emit_def checkin_inv_def)
next
  case (Some usr)
  show ?thesis
  proof (cases "list_ex (\<lambda>reg. reg_id reg = registrationId usr ev) regs")
    case True
    with assms show ?thesis by (simp add: doc_fields Some register_dup)
  next
    case fresh: False
    show ?thesis
    proof (cases "doc (registrationId usr ev)")
      case (Inl e)
      with assms show ?thesis by (simp add: doc_fields Some register_invalid [OF fresh] checkin_inv_def)
    next
      case (Inr p)
      show ?thesis
      proof (cases "db_fails w")
        case True
        with assms show ?thesis
          by (simp add: doc_fields Some register_fail_path [OF fresh Inr] checkin_inv_def)
      next
        case False
        have "checkin_inv (w\<lparr>faults := tl (faults w),
                trace := trace w @ [SetDoc p (toDocData (newRegistration usr ev now))]\<rparr>)"
          using assms by (simp add: doc_fields checkin_inv_def)
        then have "checkin_inv (put_doc p (toDocData (newRegistration usr ev now))
                (w\<lparr>faults := tl (faults w),
                   trace := trace w @ [SetDoc p (toDocData (newRegistration usr ev now))]\<rparr>))"
          by (rule put_doc_inv) (rule data_ok_new)
        then show ?thesis
          by (simp only: Some register_ok_path [OF fresh Inr False] fetch_inv)
      qed
    qed
  qed
qed

lemma mark_inv:
  assumes "checkin_inv w"
  shows "checkin_inv (snd (markAttendance u al rid now w))"
proof (cases "doc rid")
  case (Inl e)
  with assms show ?thesis by (simp add: doc_fields mark_invalid checkin_inv_def)
next
  case (Inr p)
  have w1: "checkin_inv (patch_doc p True now
              (w\<lparr>faults := tl (faults w), trace := trace w @ [UpdateDoc p True now]\<rparr>))"
    using assms by (intro patch_doc_inv) (simp add: doc_fields checkin_inv_def)
  consider (fail) "db_fails w" | (missing) "\<not> db_fails w" "\<not> has_doc p w"
    | (ok) "\<not> db_fails w" "has_doc p w"
    by blast
  then show ?thesis
  proof cases
    case fail
    with assms show ?thesis by (simp add: doc_fields mark_fail_path [OF Inr] checkin_inv_def)
  next
    case missing
    with assms show ?thesis by (simp add: doc_fields mark_missing_path [OF Inr] checkin_inv_def)
  next
    case ok
    show ?thesis
    proof (cases "role_of u = Some ''organizer''")
      case False
      have "list_all reg_ok (patch_local rid now (registrations w))"
        using assms by (simp add: doc_fields checkin_inv_def reg_ok_patch_local)
      with w1 show ?thesis
        by (simp add: doc_fields mark_ok_local_path [OF Inr ok False] checkin_inv_def
            setRegistrations_def emit_def)
    next
      case True
      from w1 show ?thesis
        by (simp only: mark_ok_organizer_path [OF Inr ok True] fetch_inv)
    qed
  qed
qed

subsection \<open>Ids of the working set after a registration\<close>














subsection \<open>Evaluating the operations on sample data\<close>

lemmas store_defs = fetchRegistrations_def fetch_try_def fetch_query_def registerForEvent_def
  register_try_def markAttendance_def mark_try_def role_of_def registrationId_def
  newRegistration_def toDocData_def toRegistration_def patch_local_def patch_def
  doc_def put_doc_def patch_doc_def has_doc_def

lemmas sample_defs = student1_def organizer1_def guest1_def doc_u1_e1_def doc_u2_e1_def
  sample_db_def provider_init_def student1_world_def

subsection \<open>The model's helpers, written out\<close>

lemma toRegistration_map:
  "map toRegistration ds =
     map (\<lambda>kd. \<lparr>reg_id = (case data_id (snd kd) of None \<Rightarrow> fst kd | Some i \<Rightarrow> i),
                userId = data_userId (snd kd), eventId = data_eventId (snd kd),
                registrationDate = data_registrationDate (snd kd),
                checkedIn = data_checkedIn (snd kd),
                checkedInAt = data_checkedInAt (snd kd)\<rparr>) ds"
  by (simp add: toRegistration_def)

lemma patch_map:
  "patch k ci at ds =
     map (\<lambda>kd. if fst kd = k
               then (fst kd, (snd kd)\<lparr>data_checkedIn := ci, data_checkedInAt := Some at\<rparr>)
               else kd) ds"
  by (induction ds) (auto simp: patch_def)

lemma new_doc_fields:
  "toDocData (newRegistration usr ev now) =
     \<lparr>data_id = Some (user_id usr @ ''-'' @ ev), data_userId = user_id usr, data_eventId = ev,
      data_registrationDate = now, data_checkedIn = False, data_checkedInAt = None\<rparr>"
  by (simp add: toDocData_def newRegistration_def registrationId_def)

section \<open>The properties\<close>

text \<open>
  Claim C1. Once the identity is resolved (\<open>authLoading\<close> is false; while it is true
  the function returns at its first line), \<open>fetchRegistrations\<close> chooses its query by
  the role of the identity. For an organizer it sets \<open>loading\<close> and asks for the whole
  collection. For a student it asks for the documents whose \<open>userId\<close> is the id of
  the identity. For any other role, and when there is no identity, it sets
  \<open>registrations\<close> to the empty list and makes no call to the database. When the
  query succeeds the working set becomes the list of the fetched documents, whatever it
  was before: one record for each document, with the fields of its data and, as its id,
  the field \<open>id\<close> of the data or else the key of the document.
\<close>

theorem fetch_scoped_by_role:
  assumes "\<not> authLoading"
  shows
    "(role_of u = Some ''organizer'' \<longrightarrow>
        (\<exists>evs. new_events w (snd (fetchRegistrations u authLoading w)) =
                 SetLoading True # GetDocs AllDocs # evs) \<and>
        (\<not> db_fails w \<longrightarrow>
           registrations (snd (fetchRegistrations u authLoading w)) =
             map (\<lambda>kd. \<lparr>reg_id = (case data_id (snd kd) of None \<Rightarrow> fst kd | Some i \<Rightarrow> i),
                      userId = data_userId (snd kd), eventId = data_eventId (snd kd),
                      registrationDate = data_registrationDate (snd kd),
                      checkedIn = data_checkedIn (snd kd),
                      checkedInAt = data_checkedInAt (snd kd)\<rparr>) (db w))) \<and>
     (\<forall>usr. u = Some usr \<and> role usr = ''student'' \<longrightarrow>
        (\<exists>evs. new_events w (snd (fetchRegistrations u authLoading w)) =
                 SetLoading True # GetDocs (WhereUserId (user_id usr)) # evs) \<and>
        (\<not> db_fails w \<longrightarrow>
           registrations (snd (fetchRegistrations u authLoading w)) =
             map (\<lambda>kd. \<lparr>reg_id = (case data_id (snd kd) of None \<Rightarrow> fst kd | Some i \<Rightarrow> i),
                      userId = data_userId (snd kd), eventId = data_eventId (snd kd),
                      registrationDate = data_registrationDate (snd kd),
                      checkedIn = data_checkedIn (snd kd),
                      checkedInAt = data_checkedInAt (snd kd)\<rparr>)
               (filter (\<lambda>kd. data_userId (snd kd) = user_id usr) (db w)))) \<and>
     (role_of u \<noteq> Some ''organizer'' \<and> role_of u \<noteq> Some ''student'' \<longrightarrow>
        registrations (snd (fetchRegistrations u authLoading w)) = [] \<and>
        \<not> list_ex is_db_call (new_events w (snd (fetchRegistrations u authLoading w))) \<and>
        db (snd (fetchRegistrations u authLoading w)) = db w \<and>
        faults (snd (fetchRegistrations u authLoading w)) = faults w)"
proof (intro conjI impI allI)
  assume "role_of u = Some ''organizer''"
  then have q: "query_of u = Some AllDocs"
    by (auto simp: role_of_def query_of_def)
  show "\<exists>evs. new_events w (snd (fetchRegistrations u authLoading w)) =
                 SetLoading True # GetDocs AllDocs # evs"
    using assms q by (cases "db_fails w") (simp_all add: fetch_ok fetch_fail new_events_def)
  assume "\<not> db_fails w"
  then have "registrations (snd (fetchRegistrations u authLoading w)) = map toRegistration (db w)"
    using assms q by (simp add: fetch_ok)
  then show "registrations (snd (fetchRegistrations u authLoading w)) =
             map (\<lambda>kd. \<lparr>reg_id = (case data_id (snd kd) of None \<Rightarrow> fst kd | Some i \<Rightarrow> i),
                      userId = data_userId (snd kd), eventId = data_eventId (snd kd),
                      registrationDate = data_registrationDate (snd kd),
                      checkedIn = data_checkedIn (snd kd),
                      checkedInAt = data_checkedInAt (snd kd)\<rparr>) (db w)"
    by (simp only: toRegistration_map)
next
  fix usr
  assume "u = Some usr \<and> role usr = ''student''"
  then have q: "query_of u = Some (WhereUserId (user_id usr))"
    by (auto simp: query_of_def)
  show "\<exists>evs. new_events w (snd (fetchRegistrations u authLoading w)) =
                 SetLoading True # GetDocs (WhereUserId (user_id usr)) # evs"
    using assms q by (cases "db_fails w") (simp_all add: fetch_ok fetch_fail new_events_def)
  assume "\<not> db_fails w"
  then have "registrations (snd (fetchRegistrations u authLoading w)) =
             map toRegistration (filter (\<lambda>kd. data_userId (snd kd) = user_id usr) (db w))"
    using assms q by (simp add: fetch_ok case_prod_unfold)
  then show "registrations (snd (fetchRegistrations u authLoading w)) =
             map (\<lambda>kd. \<lparr>reg_id = (case data_id (snd kd) of None \<Rightarrow> fst kd | Some i \<Rightarrow> i),
                      userId = data_userId (snd kd), eventId = data_eventId (snd kd),
                      registrationDate = data_registrationDate (snd kd),
                      checkedIn = data_checkedIn (snd kd),
                      checkedInAt = data_checkedInAt (snd kd)\<rparr>)
               (filter (\<lambda>kd. data_userId (snd kd) = user_id usr) (db w))"
    by (simp only: toRegistration_map)
next
  assume "role_of u \<noteq> Some ''organizer'' \<and> role_of u \<noteq> Some ''student''"
  then have q: "query_of u = None"
    by (auto simp: role_of_def query_of_def split: option.splits)
  show "registrations (snd (fetchRegistrations u authLoading w)) = []"
    and "\<not> list_ex is_db_call (new_events w (snd (fetchRegistrations u authLoading w)))"
    and "db (snd (fetchRegistrations u authLoading w)) = db w"
    and "faults (snd (fetchRegistrations u authLoading w)) = faults w"
    using assms q by (simp_all add: fetch_other new_events_def)
qed

theorem fetch_scoped_by_role_witness:
  "\<not> False \<and> role_of (Some organizer1) = Some ''organizer'' \<and> role student1 = ''student'' \<and>
   role_of (Some guest1) \<noteq> Some ''organizer'' \<and> role_of (Some guest1) \<noteq> Some ''student'' \<and>
   \<not> db_fails (provider_init sample_db []) \<and>
   registrations (snd (fetchRegistrations (Some organizer1) False (provider_init sample_db []))) =
     [\<lparr>reg_id = ''u1-e1'', userId = ''u1'', eventId = ''e1'',
       registrationDate = ''2024-05-01T09:00:00.000Z'', checkedIn = False, checkedInAt = None\<rparr>,
      \<lparr>reg_id = ''u2-e1'', userId = ''u2'', eventId = ''e1'',
       registrationDate = ''2024-05-02T09:00:00.000Z'', checkedIn = False, checkedInAt = None\<rparr>] \<and>
   registrations (snd (fetchRegistrations (Some student1) False (provider_init sample_db []))) =
     [\<lparr>reg_id = ''u1-e1'', userId = ''u1'', eventId = ''e1'',
       registrationDate = ''2024-05-01T09:00:00.000Z'', checkedIn = False, checkedInAt = None\<rparr>] \<and>
   registrations (snd (fetchRegistrations (Some guest1) False student1_world)) = [] \<and>
   registrations (snd (fetchRegistrations None False student1_world)) = []"
proof -
  have h0: "\<not> False" by simp
  have h1: "role_of (Some organizer1) = Some ''organizer''"
    by (simp add: role_of_def organizer1_def)
  have h2: "role student1 = ''student''"
    by (simp add: student1_def)
  have h3: "role_of (Some guest1) \<noteq> Some ''organizer'' \<and> role_of (Some guest1) \<noteq> Some ''student''"
    by (simp add: role_of_def guest1_def)
  have h4: "role_of None \<noteq> Some ''organizer'' \<and> role_of None \<noteq> Some ''student''"
    by (simp add: role_of_def)
  have h5: "\<not> db_fails (provider_init sample_db [])"
    by (simp add: db_fails_def provider_init_def)
  have "registrations (snd (fetchRegistrations (Some organizer1) False (provider_init sample_db []))) =
          map (\<lambda>kd. \<lparr>reg_id = (case data_id (snd kd) of None \<Rightarrow> fst kd | Some i \<Rightarrow> i),
                      userId = data_userId (snd kd), eventId = data_eventId (snd kd),
                      registrationDate = data_registrationDate (snd kd),
                      checkedIn = data_checkedIn (snd kd),
                      checkedInAt = data_checkedInAt (snd kd)\<rparr>) (db (provider_init sample_db []))"
    using fetch_scoped_by_role [OF h0, of "Some organizer1" "provider_init sample_db []"] h1 h5
    by blast
  also have "\<dots> =
     [\<lparr>reg_id = ''u1-e1'', userId = ''u1'', eventId = ''e1'',
       registrationDate = ''2024-05-01T09:00:00.000Z'', checkedIn = False, checkedInAt = None\<rparr>,
      \<lparr>reg_id = ''u2-e1'', userId = ''u2'', eventId = ''e1'',
       registrationDate = ''2024-05-02T09:00:00.000Z'', checkedIn = False, checkedInAt = None\<rparr>]"
    by (simp add: sample_defs)
  finally have c1: "registrations (snd (fetchRegistrations (Some organizer1) False
                      (provider_init sample_db []))) =
     [\<lparr>reg_id = ''u1-e1'', userId = ''u1'', eventId = ''e1'',
       registrationDate = ''2024-05-01T09:00:00.000Z'', checkedIn = False, checkedInAt = None\<rparr>,
      \<lparr>reg_id = ''u2-e1'', userId = ''u2'', eventId = ''e1'',
       registrationDate = ''2024-05-02T09:00:00.000Z'', checkedIn = False, checkedInAt = None\<rparr>]" .
  have "registrations (snd (fetchRegistrations (Some student1) False (provider_init sample_db []))) =
          map (\<lambda>kd. \<lparr>reg_id = (case data_id (snd kd) of None \<Rightarrow> fst kd | Some i \<Rightarrow> i),
                      userId = data_userId (snd kd), eventId = data_eventId (snd kd),
                      registrationDate = data_registrationDate (snd kd),
                      checkedIn = data_checkedIn (snd kd),
                      checkedInAt = data_checkedInAt (snd kd)\<rparr>)
            (filter (\<lambda>kd. data_userId (snd kd) = user_id student1) (db (provider_init sample_db [])))"
    using fetch_scoped_by_role [OF h0, of "Some student1" "provider_init sample_db []"] h2 h5
    by blast
  also have "\<dots> =
     [\<lparr>reg_id = ''u1-e1'', userId = ''u1'', eventId = ''e1'',
       registrationDate = ''2024-05-01T09:00:00.000Z'', checkedIn = False, checkedInAt = None\<rparr>]"
    by (simp add: sample_defs)
  finally have c2: "registrations (snd (fetchRegistrations (Some student1) False
                      (provider_init sample_db []))) =
     [\<lparr>reg_id = ''u1-e1'', userId = ''u1'', eventId = ''e1'',
       registrationDate = ''2024-05-01T09:00:00.000Z'', checkedIn = False, checkedInAt = None\<rparr>]" .
  have c3: "registrations (snd (fetchRegistrations (Some guest1) False student1_world)) = []"
    using fetch_scoped_by_role [OF h0, of "Some guest1" student1_world] h3 by blast
  have c4: "registrations (snd (fetchRegistrations None False student1_world)) = []"
    using fetch_scoped_by_role [OF h0, of None student1_world] h4 by blast
  show ?thesis
    using h0 h1 h2 h3 h5 c1 c2 c3 c4 by blast
qed






text \<open>
  Claim C4. Called with no identity, \<open>registerForEvent\<close> returns to its caller without
  an error; all it does is one call of \<open>console.error\<close> with the message that the user
  must be logged in. The collection, the working set and \<open>loading\<close> are as they were,
  and no call to the database is made.
\<close>

theorem registerForEvent_unauthenticated:
  "registerForEvent None authLoading regs ev now w =
     (Inr (), w\<lparr>trace := trace w @ [ConsoleError ''User must be logged in to register.'' None]\<rparr>)"
  by (simp add: registerForEvent_def console_error_def emit_def)

text \<open>
  Claim C5. None of the three operations lets an error reach its caller. And whenever a
  call to the database throws during an operation, be it the read of
  \<open>fetchRegistrations\<close>, the write of \<open>registerForEvent\<close>, the update of
  \<open>markAttendance\<close> or the refetch that follows a write or an update, the working set
  at the end of the operation is the working set at its start.
\<close>

theorem db_failures_swallowed:
  "fst (fetchRegistrations u al w) = Inr () \<and>
   fst (registerForEvent u al regs ev now w) = Inr () \<and>
   fst (markAttendance u al rid now w) = Inr () \<and>
   (list_ex is_thrown (new_events w (snd (fetchRegistrations u al w))) \<longrightarrow>
      registrations (snd (fetchRegistrations u al w)) = registrations w) \<and>
   (list_ex is_thrown (new_events w (snd (registerForEvent u al regs ev now w))) \<longrightarrow>
      registrations (snd (registerForEvent u al regs ev now w)) = registrations w) \<and>
   (list_ex is_thrown (new_events w (snd (markAttendance u al rid now w))) \<longrightarrow>
      registrations (snd (markAttendance u al rid now w)) = registrations w)"
  by (simp add: fetch_returns register_returns mark_returns fetch_thrown_keeps
      register_thrown_keeps mark_thrown_keeps)

theorem db_failures_swallowed_witness:
  "list_ex is_thrown (new_events (student1_world\<lparr>faults := [True]\<rparr>)
     (snd (fetchRegistrations (Some student1) False (student1_world\<lparr>faults := [True]\<rparr>)))) \<and>
   list_ex is_thrown (new_events (student1_world\<lparr>faults := [True]\<rparr>)
     (snd (registerForEvent (Some student1) False (registrations student1_world) ''e2'' ''2024-05-03T09:00:00.000Z''
        (student1_world\<lparr>faults := [True]\<rparr>)))) \<and>
   list_ex is_thrown (new_events (student1_world\<lparr>faults := [True]\<rparr>)
     (snd (markAttendance (Some student1) False ''u1-e1'' ''2024-05-04T10:00:00.000Z''
        (student1_world\<lparr>faults := [True]\<rparr>)))) \<and>
   list_ex is_thrown (new_events (student1_world\<lparr>faults := [False, True]\<rparr>)
     (snd (registerForEvent (Some student1) False (registrations student1_world) ''e2'' ''2024-05-03T09:00:00.000Z''
        (student1_world\<lparr>faults := [False, True]\<rparr>)))) \<and>
   registrations (snd (fetchRegistrations (Some student1) False
     (student1_world\<lparr>faults := [True]\<rparr>))) = registrations (student1_world\<lparr>faults := [True]\<rparr>) \<and>
   registrations (snd (registerForEvent (Some student1) False (registrations student1_world) ''e2'' ''2024-05-03T09:00:00.000Z''
     (student1_world\<lparr>faults := [True]\<rparr>))) = registrations (student1_world\<lparr>faults := [True]\<rparr>) \<and>
   registrations (snd (markAttendance (Some student1) False ''u1-e1'' ''2024-05-04T10:00:00.000Z''
     (student1_world\<lparr>faults := [True]\<rparr>))) = registrations (student1_world\<lparr>faults := [True]\<rparr>) \<and>
   registrations (snd (registerForEvent (Some student1) False (registrations student1_world) ''e2'' ''2024-05-03T09:00:00.000Z''
     (student1_world\<lparr>faults := [False, True]\<rparr>))) =
     registrations (student1_world\<lparr>faults := [False, True]\<rparr>)"
proof -
  have h1: "list_ex is_thrown (new_events (student1_world\<lparr>faults := [True]\<rparr>)
     (snd (fetchRegistrations (Some student1) False (student1_world\<lparr>faults := [True]\<rparr>))))"
    by (simp add: store_defs prim_defs sample_defs new_events_def)
  have h2: "list_ex is_thrown (new_events (student1_world\<lparr>faults := [True]\<rparr>)
     (snd (registerForEvent (Some student1) False (registrations student1_world) ''e2'' ''2024-05-03T09:00:00.000Z''
        (student1_world\<lparr>faults := [True]\<rparr>))))"
    by (simp add: store_defs prim_defs sample_defs new_events_def)
  have h3: "list_ex is_thrown (new_events (student1_world\<lparr>faults := [True]\<rparr>)
     (snd (markAttendance (Some student1) False ''u1-e1'' ''2024-05-04T10:00:00.000Z''
        (student1_world\<lparr>faults := [True]\<rparr>))))"
    by (simp add: store_defs prim_defs sample_defs new_events_def)
  have h4: "list_ex is_thrown (new_events (student1_world\<lparr>faults := [False, True]\<rparr>)
     (snd (registerForEvent (Some student1) False (registrations student1_world) ''e2'' ''2024-05-03T09:00:00.000Z''
        (student1_world\<lparr>faults := [False, True]\<rparr>))))"
    by (simp add: store_defs prim_defs sample_defs new_events_def)
  show ?thesis
    using h1 h2 h3 h4
      db_failures_swallowed [of "Some student1" False "student1_world\<lparr>faults := [True]\<rparr>"
        "registrations student1_world" "''e2''" "''2024-05-03T09:00:00.000Z''" "''u1-e1''"]
      db_failures_swallowed [of "Some student1" False "student1_world\<lparr>faults := [True]\<rparr>"
        "registrations student1_world" "''e2''" "''2024-05-04T10:00:00.000Z''" "''u1-e1''"]
      db_failures_swallowed [of "Some student1" False "student1_world\<lparr>faults := [False, True]\<rparr>"
        "registrations student1_world" "''e2''" "''2024-05-03T09:00:00.000Z''" "''u1-e1''"]
    by blast
qed

text \<open>
  Claim C6, amended. Once the identity is resolved, \<open>fetchRegistrations\<close> first sets
  \<open>loading\<close> to true, does not set it to false before a call to the database, and
  ends by setting it to false, whether the fetch succeeds, fails or is skipped because
  the role selects no query. While the identity is still being resolved the function
  does nothing at all: \<open>loading\<close> keeps the value it had.
\<close>

theorem fetch_loading_resolved:
  "(\<not> authLoading \<longrightarrow>
      loading (snd (fetchRegistrations u authLoading w)) = False \<and>
      (\<exists>evs. new_events w (snd (fetchRegistrations u authLoading w)) =
               SetLoading True # evs @ [SetLoading False] \<and>
             (list_ex is_db_call evs \<longrightarrow> SetLoading False \<notin> set evs))) \<and>
   (authLoading \<longrightarrow> fetchRegistrations u authLoading w = (Inr (), w))"
proof (intro conjI impI)
  assume a: "\<not> authLoading"
  show "loading (snd (fetchRegistrations u authLoading w)) = False"
    using a by (cases "query_of u"; cases "db_fails w") (simp_all add: fetch_other fetch_ok fetch_fail)
  show "\<exists>evs. new_events w (snd (fetchRegistrations u authLoading w)) =
               SetLoading True # evs @ [SetLoading False] \<and>
             (list_ex is_db_call evs \<longrightarrow> SetLoading False \<notin> set evs)"
    using a by (cases "query_of u"; cases "db_fails w")
      (simp_all add: fetch_other fetch_ok fetch_fail new_events_def)
next
  assume "authLoading"
  then show "fetchRegistrations u authLoading w = (Inr (), w)"
    by (simp add: fetch_pending)
qed

theorem fetch_loading_resolved_witness:
  "\<not> False \<and>
   loading (snd (fetchRegistrations (Some student1) False (provider_init sample_db [True]))) = False \<and>
   loading (snd (fetchRegistrations (Some student1) False (provider_init sample_db []))) = False \<and>
   loading (snd (fetchRegistrations None False (provider_init sample_db []))) = False \<and>
   fetchRegistrations (Some student1) True (provider_init sample_db []) =
     (Inr (), provider_init sample_db [])"
  using fetch_loading_resolved [of False "Some student1" "provider_init sample_db [True]"]
    fetch_loading_resolved [of False "Some student1" "provider_init sample_db []"]
    fetch_loading_resolved [of False None "provider_init sample_db []"]
    fetch_loading_resolved [of True "Some student1" "provider_init sample_db []"]
  by simp

text \<open>
  Claim C6 as it is written fails for the skip that is taken while the identity is being
  resolved: the provider starts with \<open>loading\<close> true, and a call made while
  \<open>authLoading\<close> is true, with or without a user, returns with \<open>loading\<close>
  still true.
\<close>

theorem fetch_loading_pending_counterexample:
  "\<not> (loading (snd (fetchRegistrations None True (provider_init [] []))) = False) \<and>
   \<not> (loading (snd (fetchRegistrations (Some student1) True (provider_init sample_db []))) = False)"
  by (simp add: fetch_pending provider_init_def)

text \<open>
  Claim C7. A record is not checked in exactly when it has no check-in time. When this
  holds of every record of the working set and of every document of the collection, it
  holds of both again after \<open>fetchRegistrations\<close>, after \<open>registerForEvent\<close> and
  after \<open>markAttendance\<close>. The record that \<open>registerForEvent\<close> builds has
  \<open>checkedIn\<close> false and no \<open>checkedInAt\<close>; \<open>markAttendance\<close> sets
  \<open>checkedIn\<close> to true and \<open>checkedInAt\<close> together, in the document and in the
  local record. The provider starts with an empty working set, so the property holds from
  the start over a collection of which it holds.
\<close>

theorem checkin_invariant_preserved:
  "(checkin_inv w \<longrightarrow>
      (\<forall>r \<in> set (registrations w). checkedIn r = False \<longleftrightarrow> checkedInAt r = None) \<and>
      checkin_inv (snd (fetchRegistrations u al w)) \<and>
      checkin_inv (snd (registerForEvent u al regs ev now w)) \<and>
      checkin_inv (snd (markAttendance u al rid now w))) \<and>
   checkedIn (newRegistration usr ev now) = False \<and>
   checkedInAt (newRegistration usr ev now) = None \<and>
   (\<forall>r \<in> set (patch_local rid now rs). reg_id r = rid \<longrightarrow> checkedIn r \<and> checkedInAt r = Some now) \<and>
   (\<forall>d. (rid, d) \<in> set (patch rid True now ds) \<longrightarrow> data_checkedIn d \<and> data_checkedInAt d = Some now) \<and>
   (list_all (\<lambda>kd. data_ok (snd kd)) ds \<longrightarrow> checkin_inv (provider_init ds fs))"
proof (intro conjI impI)
  assume "list_all (\<lambda>kd. data_ok (snd kd)) ds"
  then show "checkin_inv (provider_init ds fs)"
    by (simp add: checkin_inv_def provider_init_def)
next
  assume i: "checkin_inv w"
  then show "\<forall>r \<in> set (registrations w). checkedIn r = False \<longleftrightarrow> checkedInAt r = None"
    by (simp add: checkin_inv_def list_all_iff reg_ok_def)
  from i show "checkin_inv (snd (fetchRegistrations u al w))" by (rule fetch_inv)
  from i show "checkin_inv (snd (registerForEvent u al regs ev now w))" by (rule register_inv)
  from i show "checkin_inv (snd (markAttendance u al rid now w))" by (rule mark_inv)
next
  show "checkedIn (newRegistration usr ev now) = False"
    and "checkedInAt (newRegistration usr ev now) = None"
    by (simp_all add: newRegistration_def)
  show "\<forall>r \<in> set (patch_local rid now rs). reg_id r = rid \<longrightarrow> checkedIn r \<and> checkedInAt r = Some now"
    using patch_local_sets_both by blast
  show "\<forall>d. (rid, d) \<in> set (patch rid True now ds) \<longrightarrow> data_checkedIn d \<and> data_checkedInAt d = Some now"
    by (intro allI impI) (rule patch_sets_both)
qed

theorem checkin_invariant_preserved_witness:
  "checkin_inv student1_world \<and>
   list_all (\<lambda>r. checkedIn r = False \<longleftrightarrow> checkedInAt r = None) (registrations student1_world) \<and>
   checkin_inv (snd (fetchRegistrations (Some organizer1) False student1_world)) \<and>
   checkin_inv (snd (registerForEvent (Some student1) False (registrations student1_world) ''e2'' ''2024-05-03T09:00:00.000Z''
                       student1_world)) \<and>
   checkin_inv (snd (markAttendance (Some student1) False ''u1-e1'' ''2024-05-04T10:00:00.000Z''
                       student1_world)) \<and>
   list_all (\<lambda>r. checkedIn r \<and> checkedInAt r = Some ''2024-05-04T10:00:00.000Z'')
     (patch_local ''u1-e1'' ''2024-05-04T10:00:00.000Z'' (registrations student1_world))"
proof -
  have h: "checkin_inv student1_world"
    by (simp add: checkin_inv_def reg_ok_def data_ok_def toRegistration_def sample_defs)
  have p: "list_all (\<lambda>r. reg_id r = ''u1-e1'')
             (patch_local ''u1-e1'' ''2024-05-04T10:00:00.000Z'' (registrations student1_world))"
    by (simp add: patch_local_def toRegistration_def sample_defs)
  note a = checkin_invariant_preserved [of student1_world "Some organizer1" False "registrations student1_world" "''e2''"
        "''2024-05-03T09:00:00.000Z''" "''u1-e1''" student1 "registrations student1_world" "[]" "[]"]
  note b = checkin_invariant_preserved [of student1_world "Some student1" False "registrations student1_world" "''e2''"
        "''2024-05-03T09:00:00.000Z''" "''u1-e1''" student1 "registrations student1_world" "[]" "[]"]
  note c = checkin_invariant_preserved [of student1_world "Some student1" False "registrations student1_world" "''e2''"
        "''2024-05-04T10:00:00.000Z''" "''u1-e1''" student1 "registrations student1_world" "[]" "[]"]
  show ?thesis
    using h p a [THEN conjunct1] b [THEN conjunct1] c [THEN conjunct1]
      c [THEN conjunct2, THEN conjunct2, THEN conjunct2, THEN conjunct1]
    unfolding list_all_iff by blast
qed

text \<open>
  Claim C8. The derived views. For an identity with the role student, every record of
  \<open>userRegistrations\<close> is a record of \<open>registrations\<close> and has the id of the
  identity as its \<open>userId\<close>; with no identity \<open>userRegistrations\<close> is empty. For
  an identity with the role organizer \<open>allRegistrations\<close> is \<open>registrations\<close>; for
  any other role, and with no identity, it is empty.
\<close>

theorem derived_views_visibility:
  "(role_of u = Some ''student'' \<longrightarrow>
      set (userRegistrations u regs) \<subseteq> set regs \<and>
      (\<forall>r \<in> set (userRegistrations u regs). \<exists>usr. u = Some usr \<and> userId r = user_id usr)) \<and>
   userRegistrations None regs = [] \<and>
   (role_of u = Some ''organizer'' \<longrightarrow> allRegistrations u regs = regs) \<and>
   (role_of u \<noteq> Some ''organizer'' \<longrightarrow> allRegistrations u regs = [])"
  by (auto simp: userRegistrations_def allRegistrations_def role_of_def split: option.splits)

theorem derived_views_visibility_witness:
  "role_of (Some student1) = Some ''student'' \<and>
   role_of (Some organizer1) = Some ''organizer'' \<and>
   role_of None \<noteq> Some ''organizer'' \<and>
   set (userRegistrations (Some student1) (map toRegistration sample_db))
     \<subseteq> set (map toRegistration sample_db) \<and>
   list_all (\<lambda>r. userId r = user_id student1)
     (userRegistrations (Some student1) (map toRegistration sample_db)) \<and>
   allRegistrations (Some student1) (map toRegistration sample_db) = [] \<and>
   allRegistrations (Some organizer1) (map toRegistration sample_db) = map toRegistration sample_db \<and>
   allRegistrations None (map toRegistration sample_db) = []"
  using derived_views_visibility [of "Some student1" "map toRegistration sample_db"]
    derived_views_visibility [of "Some organizer1" "map toRegistration sample_db"]
    derived_views_visibility [of None "map toRegistration sample_db"]
  by (simp add: role_of_def sample_defs list_all_iff)

text \<open>
  Claim C9, amended. When the working set that the callback holds has no record with the
  id of the registration and that id names a document of the collection (it has no
  slash), the first act of \<open>registerForEvent\<close> is to write, under the key made of the
  id of the user, a hyphen and the id of the event, a document with that id, the id of the
  user, the id of the event, the time of the call as \<open>registrationDate\<close>,
  \<open>checkedIn\<close> false and no \<open>checkedInAt\<close>. When the write succeeds the document
  is in the collection under that key, the other documents and the working set are
  untouched by the write, and the rest of the call is \<open>fetchRegistrations\<close>. When the
  write fails the failure is logged, there is no refetch and the working set is as it
  was. When the id is no document path, \<open>doc\<close> throws: the error is logged and nothing
  else happens.
\<close>

theorem register_writes_then_refreshes:
  assumes fresh: "\<not> list_ex (\<lambda>reg. reg_id reg = user_id usr @ ''-'' @ ev) regs"
  shows
    "(plain_id (user_id usr @ ''-'' @ ev) \<longrightarrow>
        (\<exists>evs. new_events w (snd (registerForEvent (Some usr) al regs ev now w)) =
           SetDoc [user_id usr @ ''-'' @ ev]
             \<lparr>data_id = Some (user_id usr @ ''-'' @ ev), data_userId = user_id usr,
              data_eventId = ev, data_registrationDate = now,
              data_checkedIn = False, data_checkedInAt = None\<rparr> # evs) \<and>
        (\<not> db_fails w \<longrightarrow>
           registerForEvent (Some usr) al regs ev now w =
             fetchRegistrations (Some usr) al
               (w\<lparr>db := put (user_id usr @ ''-'' @ ev)
                         \<lparr>data_id = Some (user_id usr @ ''-'' @ ev), data_userId = user_id usr,
              data_eventId = ev, data_registrationDate = now,
              data_checkedIn = False, data_checkedInAt = None\<rparr> (db w),
                  faults := tl (faults w),
                  trace := trace w @
                    [SetDoc [user_id usr @ ''-'' @ ev]
                       \<lparr>data_id = Some (user_id usr @ ''-'' @ ev), data_userId = user_id usr,
              data_eventId = ev, data_registrationDate = now,
              data_checkedIn = False, data_checkedInAt = None\<rparr>]\<rparr>) \<and>
           (\<forall>k. map_of (db (snd (registerForEvent (Some usr) al regs ev now w))) k =
                (if k = user_id usr @ ''-'' @ ev
                 then Some \<lparr>data_id = Some (user_id usr @ ''-'' @ ev), data_userId = user_id usr,
              data_eventId = ev, data_registrationDate = now,
              data_checkedIn = False, data_checkedInAt = None\<rparr>
                 else map_of (db w) k))) \<and>
        (db_fails w \<longrightarrow>
           registrations (snd (registerForEvent (Some usr) al regs ev now w)) = registrations w \<and>
           db (snd (registerForEvent (Some usr) al regs ev now w)) = db w \<and>
           new_events w (snd (registerForEvent (Some usr) al regs ev now w)) =
             [SetDoc [user_id usr @ ''-'' @ ev]
                \<lparr>data_id = Some (user_id usr @ ''-'' @ ev), data_userId = user_id usr,
              data_eventId = ev, data_registrationDate = now,
              data_checkedIn = False, data_checkedInAt = None\<rparr>,
              Thrown Unavailable,
              ConsoleError ''Error creating registration:'' (Some Unavailable)])) \<and>
     (\<forall>e. doc (user_id usr @ ''-'' @ ev) = Inl e \<longrightarrow>
        registerForEvent (Some usr) al regs ev now w =
          (Inr (), w\<lparr>trace := trace w @
                      [Thrown e, ConsoleError ''Error creating registration:'' (Some e)]\<rparr>))"
proof -
  let ?rid = "registrationId usr ev"
  let ?d = "toDocData (newRegistration usr ev now)"
  let ?w1 = "w\<lparr>db := put ?rid ?d (db w), faults := tl (faults w),
               trace := trace w @ [SetDoc [?rid] ?d]\<rparr>"
  have fresh': "\<not> list_ex (\<lambda>reg. reg_id reg = ?rid) regs"
    using fresh by (simp add: registrationId_def)
  have ok: "registerForEvent (Some usr) al regs ev now w = fetchRegistrations (Some usr) al ?w1"
    if "plain_id ?rid" "\<not> db_fails w"
    using fresh' that by (rule register_ok)
  have bad: "registerForEvent (Some usr) al regs ev now w =
     (Inr (), w\<lparr>faults := tl (faults w),
               trace := trace w @ [SetDoc [?rid] ?d, Thrown Unavailable,
                                   ConsoleError ''Error creating registration:'' (Some Unavailable)]\<rparr>)"
    if "plain_id ?rid" "db_fails w"
    using fresh' that by (rule register_fail)
  have first: "\<exists>evs. new_events w (snd (registerForEvent (Some usr) al regs ev now w)) = SetDoc [?rid] ?d # evs"
    if plain: "plain_id ?rid"
  proof (cases "db_fails w")
    case True
    then show ?thesis by (simp add: bad [OF plain] new_events_def)
  next
    case False
    have "new_events w (snd (fetchRegistrations (Some usr) al ?w1)) =
            [SetDoc [?rid] ?d] @ new_events ?w1 (snd (fetchRegistrations (Some usr) al ?w1))"
      by (rule fetch_new_events_after) simp
    then show ?thesis by (simp add: ok [OF plain False])
  qed
  have a: "(plain_id (registrationId usr ev) \<longrightarrow>
          (\<exists>evs. new_events w (snd (registerForEvent (Some usr) al regs ev now w)) =
             SetDoc [registrationId usr ev]
               (toDocData (newRegistration usr ev now)) # evs) \<and>
          (\<not> db_fails w \<longrightarrow>
             registerForEvent (Some usr) al regs ev now w =
               fetchRegistrations (Some usr) al
                 (w\<lparr>db := put (registrationId usr ev)
                           (toDocData (newRegistration usr ev now)) (db w),
                    faults := tl (faults w),
                    trace := trace w @
                      [SetDoc [registrationId usr ev]
                         (toDocData (newRegistration usr ev now))]\<rparr>) \<and>
             (\<forall>k. map_of (db (snd (registerForEvent (Some usr) al regs ev now w))) k =
                  (if k = registrationId usr ev
                   then Some (toDocData (newRegistration usr ev now))
                   else map_of (db w) k))) \<and>
          (db_fails w \<longrightarrow>
             registrations (snd (registerForEvent (Some usr) al regs ev now w)) = registrations w \<and>
             db (snd (registerForEvent (Some usr) al regs ev now w)) = db w \<and>
             new_events w (snd (registerForEvent (Some usr) al regs ev now w)) =
               [SetDoc [registrationId usr ev]
                  (toDocData (newRegistration usr ev now)),
                Thrown Unavailable,
                ConsoleError ''Error creating registration:'' (Some Unavailable)])) \<and>
       (\<forall>e. doc (registrationId usr ev) = Inl e \<longrightarrow>
          registerForEvent (Some usr) al regs ev now w =
            (Inr (), w\<lparr>trace := trace w @
                        [Thrown e, ConsoleError ''Error creating registration:'' (Some e)]\<rparr>))"
  proof (intro conjI impI allI)
    show "\<exists>evs. new_events w (snd (registerForEvent (Some usr) al regs ev now w)) = SetDoc [?rid] ?d # evs"
      if "plain_id ?rid"
      using that by (rule first)
    show "registerForEvent (Some usr) al regs ev now w = fetchRegistrations (Some usr) al ?w1"
      if "plain_id ?rid" "\<not> db_fails w"
      using that by (rule ok)
    show "map_of (db (snd (registerForEvent (Some usr) al regs ev now w))) k = (if k = ?rid then Some ?d else map_of (db w) k)"
      if "plain_id ?rid" "\<not> db_fails w" for k
      by (simp add: ok [OF that] fetch_db map_of_put)
    show "registrations (snd (registerForEvent (Some usr) al regs ev now w)) = registrations w"
      if "plain_id ?rid" "db_fails w"
      by (simp add: bad [OF that])
    show "db (snd (registerForEvent (Some usr) al regs ev now w)) = db w"
      if "plain_id ?rid" "db_fails w"
      by (simp add: bad [OF that])
    show "new_events w (snd (registerForEvent (Some usr) al regs ev now w)) =
          [SetDoc [?rid] ?d, Thrown Unavailable,
           ConsoleError ''Error creating registration:'' (Some Unavailable)]"
      if "plain_id ?rid" "db_fails w"
      by (simp add: bad [OF that] new_events_def)
    show "registerForEvent (Some usr) al regs ev now w =
          (Inr (), w\<lparr>trace := trace w @
                      [Thrown e, ConsoleError ''Error creating registration:'' (Some e)]\<rparr>)"
      if "doc ?rid = Inl e" for e
      using fresh' that by (rule register_invalid)
  qed
  show ?thesis
    using a unfolding new_doc_fields registrationId_def .
qed

theorem register_writes_then_refreshes_witness:
  "\<not> list_ex (\<lambda>reg. reg_id reg = user_id student1 @ ''-'' @ ''e2'') (registrations student1_world) \<and>
   plain_id (user_id student1 @ ''-'' @ ''e2'') \<and>
   \<not> db_fails student1_world \<and>
   db_fails (student1_world\<lparr>faults := [True]\<rparr>) \<and>
   map_of (db (snd (registerForEvent (Some student1) False (registrations student1_world) ''e2''
                      ''2024-05-03T09:00:00.000Z'' student1_world))) ''u1-e2'' =
     Some \<lparr>data_id = Some ''u1-e2'', data_userId = ''u1'', data_eventId = ''e2'',
        data_registrationDate = ''2024-05-03T09:00:00.000Z'', data_checkedIn = False, data_checkedInAt = None\<rparr> \<and>
   registrations (snd (registerForEvent (Some student1) False (registrations student1_world) ''e2''
                         ''2024-05-03T09:00:00.000Z'' student1_world)) =
     [\<lparr>reg_id = ''u1-e1'', userId = ''u1'', eventId = ''e1'',
       registrationDate = ''2024-05-01T09:00:00.000Z'', checkedIn = False, checkedInAt = None\<rparr>,
      \<lparr>reg_id = ''u1-e2'', userId = ''u1'', eventId = ''e2'',
       registrationDate = ''2024-05-03T09:00:00.000Z'', checkedIn = False, checkedInAt = None\<rparr>] \<and>
   registrations (snd (registerForEvent (Some student1) False (registrations student1_world) ''e2''
                         ''2024-05-03T09:00:00.000Z'' (student1_world\<lparr>faults := [True]\<rparr>))) =
     registrations (student1_world\<lparr>faults := [True]\<rparr>)"
proof -
  have h1: "\<not> list_ex (\<lambda>reg. reg_id reg = user_id student1 @ ''-'' @ ''e2'')
              (registrations student1_world)"
    by (simp add: toRegistration_def sample_defs)
  have h2: "plain_id (user_id student1 @ ''-'' @ ''e2'')"
    by (simp add: plain_id_def student1_def)
  have h3: "\<not> db_fails student1_world"
    by (simp add: db_fails_def sample_defs)
  have h4: "db_fails (student1_world\<lparr>faults := [True]\<rparr>)"
    by (simp add: db_fails_def)
  note a = register_writes_then_refreshes [OF h1, of student1_world False "''2024-05-03T09:00:00.000Z''",
      THEN conjunct1, THEN mp, OF h2]
  note b = register_writes_then_refreshes [OF h1, of "student1_world\<lparr>faults := [True]\<rparr>" False
      "''2024-05-03T09:00:00.000Z''", THEN conjunct1, THEN mp, OF h2]
  note ok = a [THEN conjunct2, THEN conjunct1, THEN mp, OF h3]
  have c1: "map_of (db (snd (registerForEvent (Some student1) False (registrations student1_world)
                      ''e2'' ''2024-05-03T09:00:00.000Z'' student1_world))) ''u1-e2'' =
     Some \<lparr>data_id = Some ''u1-e2'', data_userId = ''u1'', data_eventId = ''e2'',
        data_registrationDate = ''2024-05-03T09:00:00.000Z'', data_checkedIn = False, data_checkedInAt = None\<rparr>"
    by (simp add: ok [THEN conjunct2, THEN spec, of "''u1-e2''"]) (simp add: student1_def)
  have c2: "registrations (snd (registerForEvent (Some student1) False (registrations student1_world)
                         ''e2'' ''2024-05-03T09:00:00.000Z'' student1_world)) =
     [\<lparr>reg_id = ''u1-e1'', userId = ''u1'', eventId = ''e1'',
       registrationDate = ''2024-05-01T09:00:00.000Z'', checkedIn = False, checkedInAt = None\<rparr>,
      \<lparr>reg_id = ''u1-e2'', userId = ''u1'', eventId = ''e2'',
       registrationDate = ''2024-05-03T09:00:00.000Z'', checkedIn = False, checkedInAt = None\<rparr>]"
    by (simp only: ok [THEN conjunct1])
       (simp add: fetchRegistrations_def fetch_try_def fetch_query_def role_of_def
          toRegistration_def prim_defs sample_defs)
  have c3: "registrations (snd (registerForEvent (Some student1) False (registrations student1_world)
                         ''e2'' ''2024-05-03T09:00:00.000Z'' (student1_world\<lparr>faults := [True]\<rparr>))) =
     registrations (student1_world\<lparr>faults := [True]\<rparr>)"
    using b [THEN conjunct2, THEN conjunct2, THEN mp, OF h4] by blast
  show ?thesis
    using h1 h2 h3 h4 c1 c2 c3 by blast
qed

text \<open>
  Claim C9 as it is written fails for an event id with a slash: the id of the registration
  is then no document path, \<open>doc\<close> throws inside the \<open>try\<close>, and a call that is no
  duplicate writes nothing to the database.
\<close>

theorem register_writes_then_refreshes_counterexample:
  "\<not> list_ex (\<lambda>reg. reg_id reg = ''u1-a/b'') (registrations student1_world) \<and>
   \<not> list_ex is_db_call
     (new_events student1_world
        (snd (registerForEvent (Some student1) False (registrations student1_world) ''a/b''
                ''2024-05-03T09:00:00.000Z'' student1_world))) \<and>
   db (snd (registerForEvent (Some student1) False (registrations student1_world) ''a/b''
              ''2024-05-03T09:00:00.000Z'' student1_world)) = db student1_world"
  by (simp add: store_defs prim_defs sample_defs new_events_def)

text \<open>
  Claim C10, amended. \<open>markAttendance\<close> asks for no identity. Called with none, for
  an id that is a document path its first act is still the update of the database (for an
  id without a slash, of the document of that id in the collection); when the update
  succeeds it goes on by the branch that changes the working set in place, with no
  refetch; and whenever the working set has no record with the given id, the working set
  at the end is the working set at the start. For an id that is no document path,
  \<open>doc\<close> throws: the error is logged and nothing else happens.
  \<open>registerForEvent\<close> called with no identity makes no call to the database.
\<close>

theorem mark_without_identity:
  "(\<forall>p. doc rid = Inr p \<longrightarrow>
      (\<exists>evs. new_events w (snd (markAttendance None al rid now w)) = UpdateDoc p True now # evs)) \<and>
   (plain_id rid \<longrightarrow> doc rid = Inr [rid]) \<and>
   (plain_id rid \<and> \<not> db_fails w \<and> rid \<in> fst ` set (db w) \<longrightarrow>
      markAttendance None al rid now w =
        (Inr (),
         w\<lparr>registrations := map (\<lambda>reg. if reg_id reg = rid
                           then reg\<lparr>checkedIn := True, checkedInAt := Some now\<rparr> else reg) (registrations w),
           db := map (\<lambda>kd. if fst kd = rid
                          then (fst kd, (snd kd)\<lparr>data_checkedIn := True,
                                                  data_checkedInAt := Some now\<rparr>)
                          else kd) (db w),
           faults := tl (faults w),
           trace := trace w @
             [UpdateDoc [rid] True now,
              SetRegistrations (map (\<lambda>reg. if reg_id reg = rid
                           then reg\<lparr>checkedIn := True, checkedInAt := Some now\<rparr> else reg) (registrations w))]\<rparr>)) \<and>
   (\<not> list_ex (\<lambda>reg. reg_id reg = rid) (registrations w) \<longrightarrow>
      registrations (snd (markAttendance None al rid now w)) = registrations w) \<and>
   (\<forall>e. doc rid = Inl e \<longrightarrow>
      markAttendance None al rid now w =
        (Inr (), w\<lparr>trace := trace w @
                    [Thrown e, ConsoleError ''Error marking attendance:'' (Some e)]\<rparr>)) \<and>
   \<not> list_ex is_db_call (new_events w (snd (registerForEvent None al regs ev now w)))"
proof -
  have r: "role_of None \<noteq> Some ''organizer''"
    by (simp add: role_of_def)
  have g: "\<not> list_ex is_db_call (new_events w (snd (registerForEvent None al regs ev now w)))"
    by (simp add: registerForEvent_def console_error_def emit_def new_events_def)
  have first: "\<exists>evs. new_events w (snd (markAttendance None al rid now w)) = UpdateDoc p True now # evs"
    if p: "doc rid = Inr p" for p
  proof -
    consider (fail) "db_fails w" | (missing) "\<not> db_fails w" "\<not> has_doc p w"
      | (ok) "\<not> db_fails w" "has_doc p w"
      by blast
    then show ?thesis
    proof cases
      case fail
      then show ?thesis by (simp add: mark_fail_path [OF p] new_events_def)
    next
      case missing
      then show ?thesis by (simp add: mark_missing_path [OF p] new_events_def)
    next
      case ok
      then show ?thesis
        by (simp add: mark_ok_local_path [OF p ok r] new_events_def setRegistrations_def emit_def
            doc_fields)
    qed
  qed
  have keep: "registrations (snd (markAttendance None al rid now w)) = registrations w"
    if miss: "\<not> list_ex (\<lambda>reg. reg_id reg = rid) (registrations w)"
  proof (cases "doc rid")
    case (Inl e)
    then show ?thesis by (simp add: mark_invalid)
  next
    case (Inr p)
    consider (fail) "db_fails w" | (missing) "\<not> db_fails w" "\<not> has_doc p w"
      | (ok) "\<not> db_fails w" "has_doc p w"
      by blast
    then show ?thesis
    proof cases
      case fail
      then show ?thesis by (simp add: mark_fail_path [OF Inr])
    next
      case missing
      then show ?thesis by (simp add: mark_missing_path [OF Inr])
    next
      case ok
      then show ?thesis
        by (simp add: mark_ok_local_path [OF Inr ok r] setRegistrations_def emit_def
            patch_local_miss [OF miss] doc_fields)
    qed
  qed
  have a: "(\<forall>p. doc rid = Inr p \<longrightarrow>
        (\<exists>evs. new_events w (snd (markAttendance None al rid now w)) = UpdateDoc p True now # evs)) \<and>
     (plain_id rid \<longrightarrow> doc rid = Inr [rid]) \<and>
     (plain_id rid \<and> \<not> db_fails w \<and> rid \<in> fst ` set (db w) \<longrightarrow>
        markAttendance None al rid now w =
          (Inr (),
           w\<lparr>registrations := patch_local rid now (registrations w),
             db := patch rid True now (db w),
             faults := tl (faults w),
             trace := trace w @
               [UpdateDoc [rid] True now,
                SetRegistrations (patch_local rid now (registrations w))]\<rparr>)) \<and>
     (\<not> list_ex (\<lambda>reg. reg_id reg = rid) (registrations w) \<longrightarrow>
        registrations (snd (markAttendance None al rid now w)) = registrations w) \<and>
     (\<forall>e. doc rid = Inl e \<longrightarrow>
        markAttendance None al rid now w =
          (Inr (), w\<lparr>trace := trace w @
                      [Thrown e, ConsoleError ''Error marking attendance:'' (Some e)]\<rparr>)) \<and>
     \<not> list_ex is_db_call (new_events w (snd (registerForEvent None al regs ev now w)))"
  proof (intro conjI impI allI)
    show "\<exists>evs. new_events w (snd (markAttendance None al rid now w)) = UpdateDoc p True now # evs"
      if "doc rid = Inr p" for p
      using that by (rule first)
    show "doc rid = Inr [rid]" if "plain_id rid"
      using that by (rule doc_plain)
    show "markAttendance None al rid now w =
        (Inr (),
         w\<lparr>registrations := patch_local rid now (registrations w),
           db := patch rid True now (db w),
           faults := tl (faults w),
           trace := trace w @
             [UpdateDoc [rid] True now,
              SetRegistrations (patch_local rid now (registrations w))]\<rparr>)"
      if "plain_id rid \<and> \<not> db_fails w \<and> rid \<in> fst ` set (db w)"
      using that r by (simp add: mark_ok_local)
    show "registrations (snd (markAttendance None al rid now w)) = registrations w"
      if "\<not> list_ex (\<lambda>reg. reg_id reg = rid) (registrations w)"
      using that by (rule keep)
    show "markAttendance None al rid now w =
        (Inr (), w\<lparr>trace := trace w @
                    [Thrown e, ConsoleError ''Error marking attendance:'' (Some e)]\<rparr>)"
      if "doc rid = Inl e" for e
      using that by (rule mark_invalid)
    show "\<not> list_ex is_db_call (new_events w (snd (registerForEvent None al regs ev now w)))"
      by (rule g)
  qed
  show ?thesis
    using a unfolding patch_map patch_local_def .
qed

theorem mark_without_identity_witness:
  "plain_id ''u2-e1'' \<and>
   \<not> db_fails student1_world \<and>
   ''u2-e1'' \<in> fst ` set (db student1_world) \<and>
   \<not> list_ex (\<lambda>reg. reg_id reg = ''u2-e1'') (registrations student1_world) \<and>
   new_events student1_world
     (snd (markAttendance None False ''u2-e1'' ''2024-05-04T10:00:00.000Z'' student1_world)) =
     [UpdateDoc [''u2-e1''] True ''2024-05-04T10:00:00.000Z'',
      SetRegistrations
        [\<lparr>reg_id = ''u1-e1'', userId = ''u1'', eventId = ''e1'',
          registrationDate = ''2024-05-01T09:00:00.000Z'',
          checkedIn = False, checkedInAt = None\<rparr>]] \<and>
   db (snd (markAttendance None False ''u2-e1'' ''2024-05-04T10:00:00.000Z'' student1_world)) =
     [(''u1-e1'', \<lparr>data_id = Some ''u1-e1'', data_userId = ''u1'', data_eventId = ''e1'',
                  data_registrationDate = ''2024-05-01T09:00:00.000Z'',
                  data_checkedIn = False, data_checkedInAt = None\<rparr>),
      (''u2-e1'', \<lparr>data_id = Some ''u2-e1'', data_userId = ''u2'', data_eventId = ''e1'',
                  data_registrationDate = ''2024-05-02T09:00:00.000Z'',
                  data_checkedIn = True, data_checkedInAt = Some ''2024-05-04T10:00:00.000Z''\<rparr>)] \<and>
   registrations (snd (markAttendance None False ''u2-e1'' ''2024-05-04T10:00:00.000Z'' student1_world)) =
     registrations student1_world \<and>
   doc '''' = Inl InvalidArgument \<and>
   markAttendance None False '''' ''2024-05-04T10:00:00.000Z'' student1_world =
     (Inr (), student1_world
        \<lparr>trace := trace student1_world @
           [Thrown InvalidArgument,
            ConsoleError ''Error marking attendance:'' (Some InvalidArgument)]\<rparr>)"
proof -
  have h0: "plain_id ''u2-e1''"
    by (simp add: plain_id_def)
  have h1: "\<not> db_fails student1_world"
    by (simp add: db_fails_def sample_defs)
  have h2: "''u2-e1'' \<in> fst ` set (db student1_world)"
    by (simp add: sample_defs)
  have h3: "\<not> list_ex (\<lambda>reg. reg_id reg = ''u2-e1'') (registrations student1_world)"
    by (simp add: toRegistration_def sample_defs)
  have h4: "doc '''' = Inl InvalidArgument"
    by (simp add: doc_def)
  note a = mark_without_identity [of "''u2-e1''" student1_world False "''2024-05-04T10:00:00.000Z''" "[]" "''e1''"]
  note b = mark_without_identity [of "''''" student1_world False "''2024-05-04T10:00:00.000Z''" "[]" "''e1''"]
  have e: "markAttendance None False ''u2-e1'' ''2024-05-04T10:00:00.000Z'' student1_world =
      (Inr (),
       student1_world
         \<lparr>registrations := map (\<lambda>reg. if reg_id reg = ''u2-e1''
                    then reg\<lparr>checkedIn := True, checkedInAt := Some ''2024-05-04T10:00:00.000Z''\<rparr> else reg)
                  (registrations student1_world),
          db := map (\<lambda>kd. if fst kd = ''u2-e1''
                    then (fst kd, (snd kd)\<lparr>data_checkedIn := True,
                                            data_checkedInAt := Some ''2024-05-04T10:00:00.000Z''\<rparr>)
                    else kd) (db student1_world),
          faults := tl (faults student1_world),
          trace := trace student1_world @
            [UpdateDoc [''u2-e1''] True ''2024-05-04T10:00:00.000Z'',
             SetRegistrations (map (\<lambda>reg. if reg_id reg = ''u2-e1''
                    then reg\<lparr>checkedIn := True, checkedInAt := Some ''2024-05-04T10:00:00.000Z''\<rparr> else reg)
                  (registrations student1_world))]\<rparr>)"
    using a h0 h1 h2 by blast
  have c1: "new_events student1_world
     (snd (markAttendance None False ''u2-e1'' ''2024-05-04T10:00:00.000Z'' student1_world)) =
     [UpdateDoc [''u2-e1''] True ''2024-05-04T10:00:00.000Z'',
      SetRegistrations
        [\<lparr>reg_id = ''u1-e1'', userId = ''u1'', eventId = ''e1'',
          registrationDate = ''2024-05-01T09:00:00.000Z'',
          checkedIn = False, checkedInAt = None\<rparr>]]"
    by (simp only: e) (simp add: new_events_def toRegistration_def sample_defs)
  have c2: "db (snd (markAttendance None False ''u2-e1'' ''2024-05-04T10:00:00.000Z'' student1_world)) =
     [(''u1-e1'', \<lparr>data_id = Some ''u1-e1'', data_userId = ''u1'', data_eventId = ''e1'',
                  data_registrationDate = ''2024-05-01T09:00:00.000Z'',
                  data_checkedIn = False, data_checkedInAt = None\<rparr>),
      (''u2-e1'', \<lparr>data_id = Some ''u2-e1'', data_userId = ''u2'', data_eventId = ''e1'',
                  data_registrationDate = ''2024-05-02T09:00:00.000Z'',
                  data_checkedIn = True, data_checkedInAt = Some ''2024-05-04T10:00:00.000Z''\<rparr>)]"
    by (simp only: e) (simp add: sample_defs)
  have c3: "registrations (snd (markAttendance None False ''u2-e1'' ''2024-05-04T10:00:00.000Z'' student1_world)) =
     registrations student1_world"
    using a h3 by blast
  have c4: "markAttendance None False '''' ''2024-05-04T10:00:00.000Z'' student1_world =
     (Inr (), student1_world
        \<lparr>trace := trace student1_world @
           [Thrown InvalidArgument,
            ConsoleError ''Error marking attendance:'' (Some InvalidArgument)]\<rparr>)"
    using b h4 by blast
  show ?thesis
    using h0 h1 h2 h3 h4 c1 c2 c3 c4 by blast
qed

text \<open>
  Claim C10 as it is written fails for the ids that are no document path, the empty id
  among them: \<open>doc\<close> throws inside the \<open>try\<close> and no update of the database is
  issued.
\<close>

theorem mark_without_identity_counterexample:
  "\<not> list_ex is_db_call
     (new_events student1_world
        (snd (markAttendance None False '''' ''2024-05-04T10:00:00.000Z'' student1_world))) \<and>
   \<not> list_ex is_db_call
     (new_events student1_world
        (snd (markAttendance None False ''u1-e1/x'' ''2024-05-04T10:00:00.000Z'' student1_world)))"
  by (simp add: store_defs prim_defs sample_defs new_events_def)

end
